theory Spec2Isabelle
  imports Complex_Main "HOL-Library.Sublist"
begin

chapter \<open>The attendance tracker: model\<close>

section \<open>JavaScript values, errors and observable effects\<close>

text \<open>
  The values the browser code handles: what \<^verbatim>\<open>JSON.parse\<close> returns, what the
  backend client sends and receives. A JavaScript number is read as the real it denotes
  (the program only tests numbers for zero and passes them on). \<open>Time t\<close> stands for the
  ISO-8601 text of the instant \<open>t\<close> (milliseconds), as \<^verbatim>\<open>toISOString()\<close> produces
  it and as a \<^verbatim>\<open>TIMESTAMPTZ\<close> column holds it. \<^verbatim>\<open>undefined\<close> is \<open>None\<close> of
  \<open>val option\<close>.
\<close>

datatype val =
    Null
  | Bool bool
  | Num real
  | Str string
  | Time int
  | Arr "val list"
  | Obj "(string \<times> val) list"

text \<open>Truthiness, as \<^verbatim>\<open>!x\<close>, \<^verbatim>\<open>x || y\<close> and \<^verbatim>\<open>if (x)\<close> test it.\<close>

fun truthy :: "val option \<Rightarrow> bool" where
  "truthy None = False"
| "truthy (Some Null) = False"
| "truthy (Some (Bool b)) = b"
| "truthy (Some (Num n)) = (n \<noteq> 0)"
| "truthy (Some (Str s)) = (s \<noteq> [])"
| "truthy (Some (Time t)) = True"
| "truthy (Some (Arr xs)) = True"
| "truthy (Some (Obj kvs)) = True"

definition js_or :: "val option \<Rightarrow> val option \<Rightarrow> val option" where
  "js_or a b = (if truthy a then a else b)"

text \<open>
  \<^verbatim>\<open>x || null\<close>: the right operand is \<^verbatim>\<open>null\<close>, so the result is never
  \<^verbatim>\<open>undefined\<close>.
\<close>

definition or_null :: "val option \<Rightarrow> val" where
  "or_null a = (if truthy a then the a else Null)"

text \<open>
  Reading a property \<^verbatim>\<open>v.k\<close> of a value that is neither \<^verbatim>\<open>null\<close> nor
  \<^verbatim>\<open>undefined\<close>, for the keys this program reads (\<^verbatim>\<open>course_id\<close>, \<^verbatim>\<open>id\<close>,
  \<^verbatim>\<open>name\<close>, \<^verbatim>\<open>code\<close>): an object gives the value stored under the key, every other
  value has no such property.
\<close>

fun get_prop :: "val \<Rightarrow> string \<Rightarrow> val option" where
  "get_prop (Obj kvs) k = map_of kvs k"
| "get_prop v k = None"

datatype zod_issue = Issue string string

datatype js_error =
    TypeError
  | PostgrestError string
  | ZodError "zod_issue list"

datatype variant = Default | Destructive

text \<open>The pieces of a template literal: literal text, an interpolated value, the
  \<^verbatim>\<open>message\<close> of a caught error.\<close>

datatype text_part = Lit string | Interp "val option" | Message js_error

text \<open>
  \<^verbatim>\<open>error.message || fallback\<close>: the backend's error carries its message as a string,
  which may be empty; the messages of a \<^verbatim>\<open>TypeError\<close> and of a \<^verbatim>\<open>ZodError\<close> are
  never empty.
\<close>

fun message_or :: "js_error \<Rightarrow> string \<Rightarrow> text_part list" where
  "message_or (PostgrestError m) fallback = (if m = [] then [Lit fallback] else [Lit m])"
| "message_or e fallback = [Message e]"

text \<open>The query builder of the backend client, as the call sites write it.\<close>

datatype filter = Eq string "val option" | Gte string "val option" | Lt string "val option"

datatype request =
    SelectSingle string "string list" "filter list"
  | Insert string "(string \<times> val option) list"

record reply =
  data :: "val option"
  error :: "js_error option"

datatype effect =
    Toast variant string "text_part list"
  | StopScanning
  | ConsoleError string js_error
  | NavigateAfter nat string
  | Navigate string
  | Net request
  | Sleep nat
  | SetLoading bool
  | SetSendingEmails bool

fun net_calls :: "effect list \<Rightarrow> request list" where
  "net_calls [] = []"
| "net_calls (Net r # es) = r # net_calls es"
| "net_calls (e # es) = net_calls es"

section \<open>Chat analytics (ChatAnalytics.tsx)\<close>

text \<open>
  \<^verbatim>\<open>Math.random()\<close> returns a number in \<open>[0, 1)\<close>; the type carries that contract.
  The stream \<open>rnd\<close> lists the results of its successive calls, the counter \<open>k\<close> says
  how many have been consumed.
\<close>

typedef unit_real = "{r::real. 0 \<le> r \<and> r < 1}"
  by (rule exI[of _ 0]) simp

setup_lifting type_definition_unit_real


lift_definition unit_half :: unit_real is "1/2::real"
  by simp

text \<open>\<^verbatim>\<open>Math.floor(Math.random() * n)\<close>\<close>

definition random_below :: "unit_real \<Rightarrow> int \<Rightarrow> int" where
  "random_below r n = \<lfloor>Rep_unit_real r * of_int n\<rfloor>"


text \<open>The courses the dashboard passes in are rows of the \<^verbatim>\<open>courses\<close> table; the
  component reads \<^verbatim>\<open>id\<close>, \<^verbatim>\<open>name\<close> and \<^verbatim>\<open>code\<close>.\<close>

record course =
  course_id :: string
  course_name :: string
  course_code :: string

record student =
  student_id :: string
  student_name :: string
  email :: string
  attendance :: int
  courseName :: string
  courseCode :: string


definition firstNames :: "string list" where
  "firstNames = [''John'', ''Jane'', ''Michael'', ''Emily'', ''David'', ''Sarah'', ''James'',
     ''Jessica'', ''Robert'', ''Amanda'', ''William'', ''Ashley'', ''Richard'', ''Melissa'',
     ''Joseph'', ''Nicole'', ''Thomas'', ''Michelle'', ''Christopher'', ''Kimberly'']"

definition lastNames :: "string list" where
  "lastNames = [''Smith'', ''Johnson'', ''Williams'', ''Brown'', ''Jones'', ''Garcia'',
     ''Miller'', ''Davis'', ''Rodriguez'', ''Martinez'', ''Hernandez'', ''Lopez'', ''Wilson'',
     ''Anderson'', ''Thomas'', ''Taylor'', ''Moore'', ''Jackson'', ''Martin'', ''Lee'']"

text \<open>The decimal text of a loop index, as a template literal prints it.\<close>

fun decimal :: "nat \<Rightarrow> string" where
  "decimal n =
     (if n < 10 then [''0123456789'' ! n]
      else decimal (n div 10) @ [''0123456789'' ! (n mod 10)])"

declare decimal.simps [simp del]

definition lower_char :: "char \<Rightarrow> char" where
  "lower_char c =
     (let n = (of_char c :: nat) in if 65 \<le> n \<and> n \<le> 90 then char_of (n + 32) else c)"

definition toLowerCase :: "string \<Rightarrow> string" where
  "toLowerCase s = map lower_char s"

text \<open>One pass of the loop body: three calls of \<^verbatim>\<open>Math.random()\<close>, one student pushed.\<close>

definition fake_student :: "(nat \<Rightarrow> unit_real) \<Rightarrow> course \<Rightarrow> int \<Rightarrow> nat \<Rightarrow> student" where
  "fake_student rnd c i k =
     (let firstName = firstNames ! nat (random_below (rnd k) (int (length firstNames)));
          lastName = lastNames ! nat (random_below (rnd (k + 1)) (int (length lastNames)));
          att = random_below (rnd (k + 2)) 50 + 40
      in \<lparr> student_id = ''student-'' @ course_id c @ ''-'' @ decimal (nat i),
           student_name = firstName @ '' '' @ lastName,
           email = toLowerCase firstName @ ''.'' @ toLowerCase lastName @ ''@student.edu'',
           attendance = att,
           courseName = (if course_name c \<noteq> [] then course_name c else course_code c),
           courseCode = course_code c \<rparr>)"

text \<open>\<^verbatim>\<open>for (let i = 0; i < studentCount; i++) { ... allStudents.push(...) }\<close>\<close>

function for_students ::
  "(nat \<Rightarrow> unit_real) \<Rightarrow> course \<Rightarrow> int \<Rightarrow> int \<Rightarrow> student list \<times> nat \<Rightarrow> student list \<times> nat"
where
  "for_students rnd c studentCount i (allStudents, k) =
     (if i < studentCount
      then for_students rnd c studentCount (i + 1)
             (allStudents @ [fake_student rnd c i k], k + 3)
      else (allStudents, k))"
  by pat_completeness auto
termination
  by (relation "measure (\<lambda>(rnd, c, studentCount, i, st). nat (studentCount - i))") auto

declare for_students.simps [simp del]

text \<open>The body of \<^verbatim>\<open>courses.forEach\<close>.\<close>

definition forEach_course ::
  "(nat \<Rightarrow> unit_real) \<Rightarrow> student list \<times> nat \<Rightarrow> course \<Rightarrow> student list \<times> nat"
where
  "forEach_course rnd st c =
     (let studentCount = random_below (rnd (snd st)) 30 + 15
      in for_students rnd c studentCount 0 (fst st, snd st + 1))"



record course_bar =
  bar_name :: string
  averageAttendance :: int
  studentCount :: nat



section \<open>QR code generator (QRCodeGenerator)\<close>

text \<open>
  The object the generator serialises. \<^verbatim>\<open>JSON.stringify\<close> and \<^verbatim>\<open>JSON.parse\<close>
  belong to the platform: they are parameters of the model, \<open>JSON_parse s = None\<close>
  meaning that parsing \<open>s\<close> throws.
\<close>

definition qr_object :: "string \<Rightarrow> string \<Rightarrow> string \<Rightarrow> int \<Rightarrow> val" where
  "qr_object courseId cName cCode now =
     Obj [(''course_id'', Str courseId),
          (''course_name'', Str cName),
          (''course_code'', Str cCode),
          (''timestamp'', Time now)]"

definition qrData :: "(val \<Rightarrow> string) \<Rightarrow> string \<Rightarrow> string \<Rightarrow> string \<Rightarrow> int \<Rightarrow> string" where
  "qrData JSON_stringify courseId cName cCode now =
     JSON_stringify (qr_object courseId cName cCode now)"

section \<open>QR scanner (ScanQR)\<close>

record geo =
  lat :: real
  lng :: real
  accuracy :: real

text \<open>
  What the handler reads of the component and of the clock: \<open>user\<close> is
  \<^verbatim>\<open>user?.id\<close> (\<open>None\<close> while no user is loaded), \<open>location\<close> the position the
  geolocation callback stored (\<open>None\<close> when it was denied or has not arrived), \<open>today\<close>
  and \<open>tomorrow\<close> the local midnights before and after \<^verbatim>\<open>new Date()\<close>.
\<close>

record scanner =
  user :: "string option"
  location :: "geo option"
  today :: int
  tomorrow :: int

text \<open>
  The first block of the handler: parse the payload, fall back to the plain text, read
  \<^verbatim>\<open>courseData.course_id || courseData.id\<close>. Reading a property of \<^verbatim>\<open>null\<close>
  (the payload \<^verbatim>\<open>null\<close> parses to it) throws a \<^verbatim>\<open>TypeError\<close>.
\<close>

definition scanned_course_id :: "(string \<Rightarrow> val option) \<Rightarrow> string \<Rightarrow> js_error + val option" where
  "scanned_course_id JSON_parse qr =
     (let courseData = (case JSON_parse qr of
                          Some v \<Rightarrow> v
                        | None \<Rightarrow> Obj [(''course_id'', Str qr)])
      in if courseData = Null then Inl TypeError
         else Inr (js_or (get_prop courseData ''course_id'') (get_prop courseData ''id'')))"

definition verify_course :: "val option \<Rightarrow> request" where
  "verify_course courseId =
     SelectSingle ''courses'' [''id'', ''name'', ''code''] [Eq ''id'' courseId]"

definition existing_record :: "scanner \<Rightarrow> val option \<Rightarrow> request" where
  "existing_record s courseId =
     SelectSingle ''attendance_records'' [''id'']
       [Eq ''student_id'' (map_option Str (user s)),
        Eq ''course_id'' courseId,
        Gte ''checked_in_at'' (Some (Time (today s))),
        Lt ''checked_in_at'' (Some (Time (tomorrow s)))]"

definition create_record :: "scanner \<Rightarrow> val option \<Rightarrow> request" where
  "create_record s courseId =
     Insert ''attendance_records''
       [(''student_id'', map_option Str (user s)),
        (''course_id'', courseId),
        (''latitude'', Some (or_null (map_option (\<lambda>l. Num (lat l)) (location s)))),
        (''longitude'', Some (or_null (map_option (\<lambda>l. Num (lng l)) (location s)))),
        (''location_accuracy'',
           Some (or_null (map_option (\<lambda>l. Num (accuracy l)) (location s))))]"

text \<open>The \<^verbatim>\<open>catch\<close> block.\<close>

definition check_in_failed :: "js_error \<Rightarrow> effect list" where
  "check_in_failed e =
     [ConsoleError ''Error processing QR code:'' e,
      Toast Destructive ''Check-in failed''
        (message_or e ''An error occurred while processing your check-in.''),
      StopScanning]"

text \<open>
  The handler, against any backend: \<open>serve\<close> answers one request and returns the
  backend's next state. The result lists what the handler did, in order.
\<close>

definition handleQRCodeScanned ::
  "(string \<Rightarrow> val option) \<Rightarrow> (request \<Rightarrow> 'db \<Rightarrow> reply \<times> 'db) \<Rightarrow> scanner \<Rightarrow> string \<Rightarrow> 'db
     \<Rightarrow> effect list \<times> 'db"
where
  "handleQRCodeScanned JSON_parse serve s qr db =
     (case scanned_course_id JSON_parse qr of
        Inl e \<Rightarrow> (check_in_failed e, db)
      | Inr courseId \<Rightarrow>
          if \<not> truthy courseId
          then ([Toast Destructive ''Invalid QR Code''
                   [Lit ''The scanned QR code does not contain valid course information.''],
                 StopScanning], db)
          else
            let (r1, db1) = serve (verify_course courseId) db in
            (case data r1 of
               None \<Rightarrow>
                 ([Net (verify_course courseId),
                   Toast Destructive ''Course not found''
                     [Lit ''The scanned QR code references a course that doesn't exist.''],
                   StopScanning], db1)
             | Some course \<Rightarrow>
                 if error r1 \<noteq> None \<or> \<not> truthy (Some course)
                 then ([Net (verify_course courseId),
                        Toast Destructive ''Course not found''
                          [Lit ''The scanned QR code references a course that doesn't exist.''],
                        StopScanning], db1)
                 else
                   let (r2, db2) = serve (existing_record s courseId) db1 in
                   if truthy (data r2)
                   then ([Net (verify_course courseId),
                          Net (existing_record s courseId),
                          Toast Destructive ''Already checked in''
                            [Lit ''You've already checked in to '',
                             Interp (get_prop course ''name''), Lit '' today.''],
                          StopScanning], db2)
                   else
                     let (r3, db3) = serve (create_record s courseId) db2 in
                     (case error r3 of
                        Some insertError \<Rightarrow>
                          ([Net (verify_course courseId),
                            Net (existing_record s courseId),
                            Net (create_record s courseId)] @ check_in_failed insertError,
                           db3)
                      | None \<Rightarrow>
                          ([Net (verify_course courseId),
                            Net (existing_record s courseId),
                            Net (create_record s courseId),
                            StopScanning,
                            Toast Default ''Check-in successful!''
                              [Lit ''You've been marked present for '',
                               Interp (get_prop course ''name''), Lit '' ('',
                               Interp (get_prop course ''code''), Lit '').''],
                            NavigateAfter 2000 ''/student''], db3))))"

section \<open>The database schema (SQL migration)\<close>

text \<open>
  The migration is declarative: the model keeps it as data, one entry for each
  \<^verbatim>\<open>CREATE TABLE\<close> and each \<^verbatim>\<open>CREATE POLICY\<close>, and gives these declarations their
  meaning in the next section.
\<close>

datatype coltype = UUID | TEXT | INTEGER | TIMESTAMPTZ | DECIMAL nat nat | APP_ROLE

datatype coldefault = No_default | Gen_random_uuid | Now

datatype on_delete = No_action | Cascade

datatype reference = References string string on_delete

datatype column =
  Column (col_name: string) (col_type: coltype) (primary_key: bool) (not_null: bool)
    (col_default: coldefault) (col_ref: "reference option")

datatype table = Table (table_name: string) (columns: "column list") (uniques: "string list list")

text \<open>\<^verbatim>\<open>CREATE TYPE public.app_role AS ENUM ('student', 'professor', 'admin')\<close>\<close>

definition app_role :: "string list" where
  "app_role = [''student'', ''professor'', ''admin'']"

text \<open>The platform's table of users, of which the migration references \<^verbatim>\<open>id\<close>.\<close>

definition auth_users_table :: table where
  "auth_users_table = Table ''auth.users'' [Column ''id'' UUID True True No_default None] []"

definition profiles_table :: table where
  "profiles_table = Table ''profiles''
     [Column ''id'' UUID True True No_default (Some (References ''auth.users'' ''id'' Cascade)),
      Column ''email'' TEXT False True No_default None,
      Column ''full_name'' TEXT False False No_default None,
      Column ''created_at'' TIMESTAMPTZ False True Now None,
      Column ''updated_at'' TIMESTAMPTZ False True Now None]
     []"

definition user_roles_table :: table where
  "user_roles_table = Table ''user_roles''
     [Column ''id'' UUID True True Gen_random_uuid None,
      Column ''user_id'' UUID False True No_default
        (Some (References ''auth.users'' ''id'' Cascade)),
      Column ''role'' APP_ROLE False True No_default None,
      Column ''created_at'' TIMESTAMPTZ False True Now None]
     [[''user_id'', ''role'']]"

definition courses_table :: table where
  "courses_table = Table ''courses''
     [Column ''id'' UUID True True Gen_random_uuid None,
      Column ''name'' TEXT False True No_default None,
      Column ''code'' TEXT False True No_default None,
      Column ''professor_id'' UUID False True No_default
        (Some (References ''auth.users'' ''id'' Cascade)),
      Column ''semester'' TEXT False False No_default None,
      Column ''year'' INTEGER False False No_default None,
      Column ''qr_code_url'' TEXT False False No_default None,
      Column ''created_at'' TIMESTAMPTZ False True Now None,
      Column ''updated_at'' TIMESTAMPTZ False True Now None]
     []"

definition attendance_records_table :: table where
  "attendance_records_table = Table ''attendance_records''
     [Column ''id'' UUID True True Gen_random_uuid None,
      Column ''student_id'' UUID False True No_default
        (Some (References ''auth.users'' ''id'' Cascade)),
      Column ''course_id'' UUID False True No_default
        (Some (References ''courses'' ''id'' Cascade)),
      Column ''checked_in_at'' TIMESTAMPTZ False True Now None,
      Column ''latitude'' (DECIMAL 10 8) False False No_default None,
      Column ''longitude'' (DECIMAL 11 8) False False No_default None,
      Column ''location_accuracy'' (DECIMAL 10 2) False False No_default None,
      Column ''created_at'' TIMESTAMPTZ False True Now None]
     []"

definition schema :: "table list" where
  "schema =
     [auth_users_table, profiles_table, user_roles_table, courses_table,
      attendance_records_table]"

text \<open>
  Row-level security is enabled on the four tables of the migration. A policy's
  expression is its \<^verbatim>\<open>USING\<close> or \<^verbatim>\<open>WITH CHECK\<close> clause: \<open>Uid_eq c\<close> is
  \<^verbatim>\<open>auth.uid() = c\<close>, \<open>Has_role r\<close> is \<^verbatim>\<open>public.has_role(auth.uid(), r)\<close>.
\<close>

datatype command = SELECT | INSERT | UPDATE | DELETE

datatype expr = TRUE | Uid_eq string | Has_role string | Or expr expr

datatype policy =
  Policy (policy_name: string) (policy_table: string) (policy_cmd: command) (policy_expr: expr)

definition policies :: "policy list" where
  "policies =
     [Policy ''Users can view all profiles'' ''profiles'' SELECT TRUE,
      Policy ''Users can update own profile'' ''profiles'' UPDATE (Uid_eq ''id''),
      Policy ''Users can insert own profile'' ''profiles'' INSERT (Uid_eq ''id''),
      Policy ''Users can view own roles'' ''user_roles'' SELECT (Uid_eq ''user_id''),
      Policy ''Users can insert own role during signup'' ''user_roles'' INSERT
        (Uid_eq ''user_id''),
      Policy ''Everyone can view courses'' ''courses'' SELECT TRUE,
      Policy ''Professors can create courses'' ''courses'' INSERT
        (Or (Has_role ''professor'') (Has_role ''admin'')),
      Policy ''Professors can update own courses'' ''courses'' UPDATE
        (Or (Uid_eq ''professor_id'') (Has_role ''admin'')),
      Policy ''Admins can delete courses'' ''courses'' DELETE (Has_role ''admin''),
      Policy ''Students can view own attendance'' ''attendance_records'' SELECT
        (Or (Uid_eq ''student_id'') (Or (Has_role ''professor'') (Has_role ''admin''))),
      Policy ''Students can create own attendance'' ''attendance_records'' INSERT
        (Uid_eq ''student_id''),
      Policy ''Professors and admins can update attendance'' ''attendance_records'' UPDATE
        (Or (Has_role ''professor'') (Has_role ''admin''))]"

section \<open>What the declarations mean: rows, constraints, policies\<close>

text \<open>
  A row lists its columns; a table is the list of its rows. A column a row does not list
  is \<^verbatim>\<open>NULL\<close>. UUIDs, texts and enum labels are strings, as the client sees them.
\<close>

type_synonym row = "(string \<times> val) list"

type_synonym tables = "string \<Rightarrow> row list"

definition cell :: "row \<Rightarrow> string \<Rightarrow> val" where
  "cell r c = (case map_of r c of Some v \<Rightarrow> v | None \<Rightarrow> Null)"

text \<open>
  \<^verbatim>\<open>has_role\<close> of the migration:
  \<^verbatim>\<open>SELECT EXISTS (SELECT 1 FROM public.user_roles WHERE user_id = _user_id AND role = _role)\<close>
\<close>

definition has_role :: "tables \<Rightarrow> string \<Rightarrow> string \<Rightarrow> bool" where
  "has_role db user_id role =
     list_ex (\<lambda>r. cell r ''user_id'' = Str user_id \<and> cell r ''role'' = Str role)
       (db ''user_roles'')"

text \<open>
  An expression holds when it evaluates to \<^verbatim>\<open>TRUE\<close>; a comparison with
  \<^verbatim>\<open>NULL\<close> (no signed-in user, or a \<^verbatim>\<open>NULL\<close> column) does not.
\<close>

fun holds :: "tables \<Rightarrow> string option \<Rightarrow> row \<Rightarrow> expr \<Rightarrow> bool" where
  "holds db uid r TRUE = True"
| "holds db uid r (Uid_eq c) = (case uid of Some u \<Rightarrow> cell r c = Str u | None \<Rightarrow> False)"
| "holds db uid r (Has_role role) = (case uid of Some u \<Rightarrow> has_role db u role | None \<Rightarrow> False)"
| "holds db uid r (Or a b) = (holds db uid r a \<or> holds db uid r b)"

text \<open>
  With row-level security enabled, a command on a row is permitted when one of the
  table's policies for that command holds of the row; with no policy, nothing is.
\<close>

definition permitted :: "policy list \<Rightarrow> tables \<Rightarrow> string option \<Rightarrow> string \<Rightarrow> command \<Rightarrow> row \<Rightarrow> bool" where
  "permitted ps db uid t cmd r =
     list_ex (\<lambda>p. policy_table p = t \<and> policy_cmd p = cmd \<and> holds db uid r (policy_expr p)) ps"

text \<open>
  Values a column accepts, and what it stores. A \<^verbatim>\<open>DECIMAL(p, s)\<close> column rounds to
  \<open>s\<close> decimals, halves away from zero, and rejects what then needs more than \<open>p\<close>
  digits. The syntax of a UUID is not checked: a string that is no UUID is the key of
  no row.
\<close>

definition round_half_away :: "real \<Rightarrow> int" where
  "round_half_away x = (if 0 \<le> x then \<lfloor>x + 1/2\<rfloor> else - \<lfloor>- x + 1/2\<rfloor>)"

fun stored :: "coltype \<Rightarrow> val \<Rightarrow> val" where
  "stored (DECIMAL p s) (Num n) = Num (of_int (round_half_away (n * 10 ^ s)) / 10 ^ s)"
| "stored ty v = v"

fun well_typed :: "coltype \<Rightarrow> val \<Rightarrow> bool" where
  "well_typed ty Null = True"
| "well_typed UUID (Str s) = True"
| "well_typed TEXT (Str s) = True"
| "well_typed APP_ROLE (Str s) = (s \<in> set app_role)"
| "well_typed INTEGER (Num n) = (n = of_int \<lfloor>n\<rfloor> \<and> - 2147483648 \<le> n \<and> n \<le> 2147483647)"
| "well_typed (DECIMAL p s) (Num n) = (\<bar>round_half_away (n * 10 ^ s)\<bar> < 10 ^ p)"
| "well_typed TIMESTAMPTZ (Time t) = True"
| "well_typed ty v = False"

definition find_table :: "table list \<Rightarrow> string \<Rightarrow> table option" where
  "find_table sch t = find (\<lambda>d. table_name d = t) sch"

definition find_column :: "table \<Rightarrow> string \<Rightarrow> column option" where
  "find_column d c = find (\<lambda>x. col_name x = c) (columns d)"

text \<open>
  The state of the backend: the tables, the identity of the session (\<^verbatim>\<open>auth.uid()\<close>),
  the clock behind \<^verbatim>\<open>now()\<close>, the values \<^verbatim>\<open>gen_random_uuid()\<close> will return, and
  for each coming request whether it fails before it reaches the database.
\<close>

record server =
  tables :: tables
  auth_uid :: "string option"
  clock :: int
  uuids :: "nat \<Rightarrow> string"
  next_uuid :: nat
  outage :: "bool list"

definition default_value :: "server \<Rightarrow> coldefault \<Rightarrow> val" where
  "default_value srv d =
     (case d of
        No_default \<Rightarrow> Null
      | Gen_random_uuid \<Rightarrow> Str (uuids srv (next_uuid srv))
      | Now \<Rightarrow> Time (clock srv))"

text \<open>
  The row an insert builds: the request body is JSON, so a property that is
  \<^verbatim>\<open>undefined\<close> is not sent; a column that is not sent takes its default.
\<close>

definition sent :: "(string \<times> val option) list \<Rightarrow> (string \<times> val) list" where
  "sent payload = concat (map (\<lambda>(k, v). case v of Some x \<Rightarrow> [(k, x)] | None \<Rightarrow> []) payload)"

definition new_row :: "server \<Rightarrow> table \<Rightarrow> (string \<times> val) list \<Rightarrow> row" where
  "new_row srv d body =
     map (\<lambda>c. (col_name c,
                (case map_of body (col_name c) of
                   Some v \<Rightarrow> stored (col_type c) v
                 | None \<Rightarrow> default_value srv (col_default c)))) (columns d)"

definition key_sets :: "table \<Rightarrow> string list list" where
  "key_sets d = map col_name (filter primary_key (columns d)) # uniques d"

definition same_key :: "string list \<Rightarrow> row \<Rightarrow> row \<Rightarrow> bool" where
  "same_key ks r r' = list_all (\<lambda>k. cell r k \<noteq> Null \<and> cell r k = cell r' k) ks"

definition type_ok :: "(string \<times> val) list \<Rightarrow> column \<Rightarrow> bool" where
  "type_ok body c =
     well_typed (col_type c) (case map_of body (col_name c) of Some v \<Rightarrow> v | None \<Rightarrow> Null)"

definition not_null_ok :: "row \<Rightarrow> column \<Rightarrow> bool" where
  "not_null_ok r c = (if not_null c \<or> primary_key c then cell r (col_name c) \<noteq> Null else True)"

definition reference_ok :: "tables \<Rightarrow> row \<Rightarrow> column \<Rightarrow> bool" where
  "reference_ok db r c =
     (case col_ref c of
        None \<Rightarrow> True
      | Some (References rt rc a) \<Rightarrow>
          cell r (col_name c) = Null
          \<or> list_ex (\<lambda>x. cell x rc = cell r (col_name c)) (db rt))"

text \<open>
  \<^verbatim>\<open>INSERT\<close>: the row is stored when the table and the columns exist, the values fit
  their columns, no \<^verbatim>\<open>NOT NULL\<close>, key or foreign-key constraint is violated and, for a
  request under row-level security, an insert policy holds of the row.
\<close>

definition insert_row ::
  "table list \<Rightarrow> policy list \<Rightarrow> bool \<Rightarrow> server \<Rightarrow> string \<Rightarrow> (string \<times> val option) list
     \<Rightarrow> js_error + row"
where
  "insert_row sch ps rls srv t payload =
     (case find_table sch t of
        None \<Rightarrow> Inl (PostgrestError ''relation does not exist'')
      | Some d \<Rightarrow>
          let body = sent payload; r = new_row srv d body; db = tables srv in
          if \<not> list_all (\<lambda>(k, v). find_column d k \<noteq> None) body
          then Inl (PostgrestError ''column not found'')
          else if \<not> list_all (type_ok body) (columns d)
          then Inl (PostgrestError ''invalid input value'')
          else if \<not> list_all (not_null_ok r) (columns d)
          then Inl (PostgrestError ''null value violates not-null constraint'')
          else if list_ex (\<lambda>ks. list_ex (same_key ks r) (db t)) (key_sets d)
          then Inl (PostgrestError ''duplicate key value violates unique constraint'')
          else if \<not> list_all (reference_ok db r) (columns d)
          then Inl (PostgrestError ''violates foreign key constraint'')
          else if rls \<and> \<not> permitted ps db (auth_uid srv) t INSERT r
          then Inl (PostgrestError ''new row violates row-level security policy'')
          else Inr r)"

text \<open>
  Filters of a select. A filter is well formed when its column exists and its argument
  is a value of the column's type (\<^verbatim>\<open>undefined\<close> and \<^verbatim>\<open>null\<close> are not); the
  ordering filters are modelled on timestamps and numbers, their only use here.
\<close>

fun filter_column :: "filter \<Rightarrow> string" where
  "filter_column (Eq c v) = c"
| "filter_column (Gte c v) = c"
| "filter_column (Lt c v) = c"

fun filter_arg :: "filter \<Rightarrow> val option" where
  "filter_arg (Eq c v) = v"
| "filter_arg (Gte c v) = v"
| "filter_arg (Lt c v) = v"

fun ordered :: "filter \<Rightarrow> val \<Rightarrow> bool" where
  "ordered (Eq c a) v = True"
| "ordered f (Time t) = True"
| "ordered f (Num n) = True"
| "ordered f v = False"

definition filter_ok :: "table \<Rightarrow> filter \<Rightarrow> bool" where
  "filter_ok d f =
     (case (find_column d (filter_column f), filter_arg f) of
        (Some c, Some v) \<Rightarrow> v \<noteq> Null \<and> well_typed (col_type c) v \<and> ordered f v
      | _ \<Rightarrow> False)"

fun val_le :: "val \<Rightarrow> val \<Rightarrow> bool" where
  "val_le (Time a) (Time b) = (a \<le> b)"
| "val_le (Num a) (Num b) = (a \<le> b)"
| "val_le a b = False"

fun satisfies :: "row \<Rightarrow> filter \<Rightarrow> bool" where
  "satisfies r (Eq c (Some v)) = (cell r c = v)"
| "satisfies r (Gte c (Some v)) = val_le v (cell r c)"
| "satisfies r (Lt c (Some v)) = (val_le (cell r c) v \<and> cell r c \<noteq> v)"
| "satisfies r f = False"

text \<open>
  \<^verbatim>\<open>.select(cols)...single()\<close>: the rows the session may see and the filters keep;
  exactly one row gives \<open>data\<close>, none or several give an error and no data.
\<close>

definition select_single ::
  "table list \<Rightarrow> policy list \<Rightarrow> server \<Rightarrow> string \<Rightarrow> string list \<Rightarrow> filter list \<Rightarrow> reply"
where
  "select_single sch ps srv t cols fs =
     (case find_table sch t of
        None \<Rightarrow> \<lparr> data = None, error = Some (PostgrestError ''relation does not exist'') \<rparr>
      | Some d \<Rightarrow>
          if \<not> list_all (\<lambda>c. find_column d c \<noteq> None) cols \<or> \<not> list_all (filter_ok d) fs
          then \<lparr> data = None, error = Some (PostgrestError ''invalid request'') \<rparr>
          else
            (case filter (\<lambda>r. permitted ps (tables srv) (auth_uid srv) t SELECT r
                               \<and> list_all (satisfies r) fs) (tables srv t) of
               [r] \<Rightarrow> \<lparr> data = Some (Obj (map (\<lambda>c. (c, cell r c)) cols)), error = None \<rparr>
             | _ \<Rightarrow> \<lparr> data = None,
                      error = Some (PostgrestError
                        ''JSON object requested, multiple (or no) rows returned'') \<rparr>))"

text \<open>
  One request of the client. A request that does not reach the database comes back
  with an error and changes nothing.
\<close>

definition supabase :: "request \<Rightarrow> server \<Rightarrow> reply \<times> server" where
  "supabase req srv =
     (case outage srv of
        True # rest \<Rightarrow>
          (\<lparr> data = None, error = Some (PostgrestError ''Failed to fetch'') \<rparr>,
           srv\<lparr> outage := rest \<rparr>)
      | _ \<Rightarrow>
          (case req of
             SelectSingle t cols fs \<Rightarrow>
               (select_single schema policies srv t cols fs, srv\<lparr> outage := tl (outage srv) \<rparr>)
           | Insert t payload \<Rightarrow>
               (case insert_row schema policies True srv t payload of
                  Inl e \<Rightarrow>
                    (\<lparr> data = None, error = Some e \<rparr>,
                     srv\<lparr> next_uuid := Suc (next_uuid srv), outage := tl (outage srv) \<rparr>)
                | Inr r \<Rightarrow>
                    (\<lparr> data = None, error = None \<rparr>,
                     srv\<lparr> tables := (tables srv)(t := tables srv t @ [r]),
                          next_uuid := Suc (next_uuid srv), outage := tl (outage srv) \<rparr>))))"

text \<open>
  \<^verbatim>\<open>DELETE\<close>, with the referential actions. Tables are visited in the order of their
  declaration, which puts a referenced table before the tables that reference it:
  \<open>dead\<close> collects the deleted rows, a row that references a dead row through an
  \<^verbatim>\<open>ON DELETE CASCADE\<close> key dies with it, and a reference left dangling through any
  other key rejects the whole statement.
\<close>

definition references_dead :: "(string \<Rightarrow> row list) \<Rightarrow> on_delete \<Rightarrow> table \<Rightarrow> row \<Rightarrow> bool" where
  "references_dead dead act d r =
     list_ex (\<lambda>c. case col_ref c of
                    None \<Rightarrow> False
                  | Some (References rt rc a) \<Rightarrow>
                      a = act \<and> cell r (col_name c) \<noteq> Null
                      \<and> list_ex (\<lambda>x. cell x rc = cell r (col_name c)) (dead rt)) (columns d)"

fun cascade :: "table list \<Rightarrow> (string \<Rightarrow> row list) \<Rightarrow> tables \<Rightarrow> (string \<Rightarrow> row list) \<times> tables" where
  "cascade [] dead db = (dead, db)"
| "cascade (d # ds) dead db =
     cascade ds
       (dead(table_name d :=
          dead (table_name d) @ filter (references_dead dead Cascade d) (db (table_name d))))
       (db(table_name d :=
          filter (\<lambda>r. \<not> references_dead dead Cascade d r) (db (table_name d))))"

definition delete_rows :: "table list \<Rightarrow> tables \<Rightarrow> string \<Rightarrow> (row \<Rightarrow> bool) \<Rightarrow> js_error + tables" where
  "delete_rows sch db t P =
     (let (dead, db') = cascade sch ((\<lambda>x. [])(t := filter P (db t)))
                          (db(t := filter (\<lambda>r. \<not> P r) (db t)))
      in if list_ex (\<lambda>d. list_ex (references_dead dead No_action d) (db' (table_name d))) sch
         then Inl (PostgrestError ''violates foreign key constraint'')
         else Inr db')"

text \<open>The foreign keys a schema declares: table, column, and what the column references.\<close>

definition foreign_keys :: "table list \<Rightarrow> (string \<times> string \<times> reference) list" where
  "foreign_keys sch =
     concat (map (\<lambda>d. concat (map (\<lambda>c. case col_ref c of
                                            Some ref \<Rightarrow> [(table_name d, col_name c, ref)]
                                          | None \<Rightarrow> []) (columns d))) sch)"

text \<open>The rows of \<^verbatim>\<open>user_roles\<close> that pair a user with a role.\<close>

definition role_rows :: "tables \<Rightarrow> val \<Rightarrow> val \<Rightarrow> row list" where
  "role_rows db u ro =
     filter (\<lambda>r. cell r ''user_id'' = u \<and> cell r ''role'' = ro) (db ''user_roles'')"

section \<open>Course creation (CreateCourse.tsx)\<close>

text \<open>
  What \<^verbatim>\<open>formData.get\<close> returns for the four inputs of the form: the text of the
  input, or \<^verbatim>\<open>null\<close> (\<open>None\<close>) when the form has no such field.
\<close>

record course_form =
  form_name :: "string option"
  form_code :: "string option"
  form_semester :: "string option"
  form_year :: "string option"

text \<open>\<^verbatim>\<open>formData.get(k) || undefined\<close>: an empty or missing field is \<^verbatim>\<open>undefined\<close>.\<close>

definition or_undefined :: "string option \<Rightarrow> string option" where
  "or_undefined v = (case v of Some x \<Rightarrow> if x = [] then None else Some x | None \<Rightarrow> None)"

text \<open>What \<^verbatim>\<open>courseSchema.parse\<close> returns; \<open>None\<close> is an absent optional field.\<close>

record course_input =
  in_name :: string
  in_code :: string
  in_semester :: "string option"
  in_year :: "string option"

text \<open>\<^verbatim>\<open>z.string().min(1, message)\<close> applied to the field at \<open>path\<close>.\<close>

definition string_min1 :: "string \<Rightarrow> string \<Rightarrow> string option \<Rightarrow> zod_issue list" where
  "string_min1 path msg v =
     (case v of
        None \<Rightarrow> [Issue path ''Expected string, received null'']
      | Some x \<Rightarrow> if length x < 1 then [Issue path msg] else [])"

text \<open>
  \<^verbatim>\<open>courseSchema.parse\<close>: the two optional strings accept every string and
  \<^verbatim>\<open>undefined\<close>; any issue makes \<^verbatim>\<open>parse\<close> throw a \<^verbatim>\<open>ZodError\<close>.
\<close>

definition courseSchema_parse ::
  "string option \<Rightarrow> string option \<Rightarrow> string option \<Rightarrow> string option \<Rightarrow> js_error + course_input"
where
  "courseSchema_parse name code semester year =
     (let issues = string_min1 ''name'' ''Course name is required'' name
                   @ string_min1 ''code'' ''Course code is required'' code
      in case (name, code) of
           (Some n, Some c) \<Rightarrow>
             if issues = []
             then Inr \<lparr> in_name = n, in_code = c, in_semester = semester, in_year = year \<rparr>
             else Inl (ZodError issues)
         | _ \<Rightarrow> Inl (ZodError issues))"

text \<open>
  The row the form inserts. \<^verbatim>\<open>parseInt\<close> is the platform's, \<open>None\<close> being
  \<^verbatim>\<open>NaN\<close>, which the JSON body of the request carries as \<^verbatim>\<open>null\<close>.
\<close>

definition create_course :: "(string \<Rightarrow> real option) \<Rightarrow> string option \<Rightarrow> course_input \<Rightarrow> request" where
  "create_course parseInt user_id d =
     Insert ''courses''
       [(''name'', Some (Str (in_name d))),
        (''code'', Some (Str (in_code d))),
        (''professor_id'', map_option Str user_id),
        (''semester'', Some (or_null (map_option Str (in_semester d)))),
        (''year'',
           Some (case in_year d of
                   None \<Rightarrow> Null
                 | Some y \<Rightarrow>
                     if truthy (Some (Str y))
                     then (case parseInt y of Some n \<Rightarrow> Num n | None \<Rightarrow> Null)
                     else Null))]"

definition create_failed :: "js_error \<Rightarrow> effect list" where
  "create_failed e =
     [ConsoleError ''Error creating course:'' e,
      Toast Destructive ''Failed to create course''
        (message_or e ''Please check your input and try again.'')]"

definition handleSubmit ::
  "(string \<Rightarrow> real option) \<Rightarrow> (request \<Rightarrow> 'db \<Rightarrow> reply \<times> 'db) \<Rightarrow> string option \<Rightarrow> course_form \<Rightarrow> 'db
     \<Rightarrow> effect list \<times> 'db"
where
  "handleSubmit parseInt serve user_id form db =
     (case courseSchema_parse (form_name form) (form_code form)
             (or_undefined (form_semester form)) (or_undefined (form_year form)) of
        Inl e \<Rightarrow> ([SetLoading True] @ create_failed e @ [SetLoading False], db)
      | Inr d \<Rightarrow>
          let (r, db1) = serve (create_course parseInt user_id d) db in
          (case error r of
             Some e \<Rightarrow>
               ([SetLoading True, Net (create_course parseInt user_id d)]
                  @ create_failed e @ [SetLoading False], db1)
           | None \<Rightarrow>
               ([SetLoading True, Net (create_course parseInt user_id d),
                 Toast Default ''Course created!''
                   [Interp (Some (Str (in_name d))), Lit '' has been successfully created.''],
                 Navigate ''/professor'',
                 SetLoading False], db1)))"

section \<open>Example data\<close>

text \<open>
  A small database: a student \<open>u1\<close>, a professor \<open>p1\<close> and the course \<open>c1\<close> of
  \<open>p1\<close>; the session is the student's. The scanner's day runs from 2025-11-08T00:00Z
  to the next midnight, and the server's clock stands at 10:07:59 of that day.
\<close>

definition example_tables :: tables where
  "example_tables =
     (\<lambda>t. [])
       (''auth.users'' := [[(''id'', Str ''u1'')], [(''id'', Str ''p1'')]],
        ''user_roles'' :=
          [[(''id'', Str ''ro1''), (''user_id'', Str ''u1''), (''role'', Str ''student''),
            (''created_at'', Time 1762500000000)],
           [(''id'', Str ''ro2''), (''user_id'', Str ''p1''), (''role'', Str ''professor''),
            (''created_at'', Time 1762500000000)]],
        ''courses'' :=
          [[(''id'', Str ''c1''), (''name'', Str ''Logic''), (''code'', Str ''CS101''),
            (''professor_id'', Str ''p1''), (''semester'', Null), (''year'', Null),
            (''qr_code_url'', Null), (''created_at'', Time 1762500000000),
            (''updated_at'', Time 1762500000000)]])"

definition example_server :: server where
  "example_server =
     \<lparr> tables = example_tables, auth_uid = Some ''u1'', clock = 1762596479000,
       uuids = (\<lambda>n. ''r'' @ decimal n), next_uuid = 0, outage = [] \<rparr>"

definition example_scanner :: scanner where
  "example_scanner =
     \<lparr> user = Some ''u1'',
       location = Some \<lparr> lat = 51.5, lng = 7.25, accuracy = 12 \<rparr>,
       today = 1762560000000, tomorrow = 1762646400000 \<rparr>"

text \<open>Two check-ins of \<open>u1\<close> to \<open>c1\<close> on the scanner's day.\<close>

definition two_check_ins :: "row list" where
  "two_check_ins =
     [[(''id'', Str ''a1''), (''student_id'', Str ''u1''), (''course_id'', Str ''c1''),
       (''checked_in_at'', Time 1762592400000), (''latitude'', Null), (''longitude'', Null),
       (''location_accuracy'', Null), (''created_at'', Time 1762592400000)],
      [(''id'', Str ''a2''), (''student_id'', Str ''u1''), (''course_id'', Str ''c1''),
       (''checked_in_at'', Time 1762592400250), (''latitude'', Null), (''longitude'', Null),
       (''location_accuracy'', Null), (''created_at'', Time 1762592400250)]]"

text \<open>
  The platform's \<^verbatim>\<open>JSON.stringify\<close> and \<^verbatim>\<open>JSON.parse\<close> on the values and
  texts of the examples: the QR code the generator shows for \<open>c1\<close>, the one it would
  show for a course whose id is the empty string, the empty object, and plain text that
  is not JSON (every other text here).
\<close>

definition example_qr_text :: string where
  \<open>example_qr_text =
     ''{"course_id":"c1","course_name":"Logic","course_code":"CS101","timestamp":"2025-11-08T10:07:59.000Z"}''\<close>

definition example_qr_text_no_id :: string where
  \<open>example_qr_text_no_id =
     ''{"course_id":"","course_name":"Logic","course_code":"CS101","timestamp":"2025-11-08T10:07:59.000Z"}''\<close>

definition example_stringify :: "val \<Rightarrow> string" where
  "example_stringify v =
     (if v = qr_object ''c1'' ''Logic'' ''CS101'' 1762596479000 then example_qr_text
      else if v = qr_object [] ''Logic'' ''CS101'' 1762596479000 then example_qr_text_no_id
      else ''{}'')"

definition example_parse :: "string \<Rightarrow> val option" where
  "example_parse x =
     (if x = example_qr_text then Some (qr_object ''c1'' ''Logic'' ''CS101'' 1762596479000)
      else if x = example_qr_text_no_id
      then Some (qr_object [] ''Logic'' ''CS101'' 1762596479000)
      else if x = ''{}'' then Some (Obj [])
      else None)"

text \<open>The platform's \<^verbatim>\<open>parseInt\<close> on the year the examples enter.\<close>

definition example_parseInt :: "string \<Rightarrow> real option" where
  "example_parseInt y = (if y = ''2025'' then Some 2025 else None)"

chapter \<open>Properties\<close>

section \<open>Chat analytics\<close>

lemma random_below_range:
  assumes "0 < n"
  shows "0 \<le> random_below r n" and "random_below r n < n"
proof -
  have r: "0 \<le> Rep_unit_real r" "Rep_unit_real r < 1"
    using Rep_unit_real [of r] by auto
  show "0 \<le> random_below r n"
    using r assms by (simp add: random_below_def)
  have "Rep_unit_real r * of_int n < of_int n"
    using r assms by simp
  then show "random_below r n < n"
    by (simp add: random_below_def floor_less_iff)
qed

lemma for_students_inv:
  "(\<And>j m. P (fake_student rnd c j m)) \<Longrightarrow>
   \<exists>new. fst (for_students rnd c n i (acc, k)) = acc @ new
            \<and> length new = nat (n - i) \<and> (\<forall>s\<in>set new. P s)"
proof (induction rnd c n i "(acc, k)" arbitrary: acc k rule: for_students.induct)
  case (1 rnd c n i acc k)
  note P = "1.prems"
  show ?case
  proof (cases "i < n")
    case True
    from "1.hyps" [OF True P] obtain new where
      new: "fst (for_students rnd c n (i + 1) (acc @ [fake_student rnd c i k], k + 3))
              = (acc @ [fake_student rnd c i k]) @ new"
        "length new = nat (n - (i + 1))" "\<forall>s\<in>set new. P s"
      by blast
    have "fst (for_students rnd c n i (acc, k)) = acc @ (fake_student rnd c i k # new)"
      using True new(1) by (simp add: for_students.simps [of rnd c n i])
    moreover have "length (fake_student rnd c i k # new) = nat (n - i)"
      using True new(2) by simp
    moreover have "\<forall>s\<in>set (fake_student rnd c i k # new). P s"
      using new(3) P by simp
    ultimately show ?thesis by blast
  next
    case False
    then show ?thesis by (simp add: for_students.simps [of rnd c n i])
  qed
qed

lemma forEach_course_inv:
  assumes P: "\<And>j m. P (fake_student rnd c j m)"
  shows "\<exists>new. fst (forEach_course rnd (acc, k) c) = acc @ new
            \<and> 15 \<le> length new \<and> length new \<le> 44 \<and> (\<forall>s\<in>set new. P s)"
proof -
  define n where "n = random_below (rnd k) 30 + 15"
  have n: "15 \<le> n" "n \<le> 44"
    using random_below_range [of 30 "rnd k"] by (simp_all add: n_def)
  obtain new where new: "fst (for_students rnd c n 0 (acc, k + 1)) = acc @ new"
      "length new = nat (n - 0)" "\<forall>s\<in>set new. P s"
    using for_students_inv [of P rnd c n 0 acc "k + 1"] P by blast
  have "fst (forEach_course rnd (acc, k) c) = acc @ new"
    using new(1) by (simp add: forEach_course_def n_def)
  moreover have "15 \<le> length new" "length new \<le> 44"
    using n new(2) by simp_all
  ultimately show ?thesis using new(3) by blast
qed


lemma foldl_forEach_length:
  "15 * length courses + length (fst st) \<le> length (fst (foldl (forEach_course rnd) st courses))
   \<and> length (fst (foldl (forEach_course rnd) st courses)) \<le> 44 * length courses + length (fst st)"
proof (induction courses arbitrary: st)
  case Nil
  then show ?case by simp
next
  case (Cons c cs)
  obtain acc k where st: "st = (acc, k)" by (cases st)
  obtain new where new: "fst (forEach_course rnd (acc, k) c) = acc @ new"
      "15 \<le> length new" "length new \<le> 44"
    using forEach_course_inv [of "\<lambda>s. True" rnd c acc k] by blast
  have "length (fst (forEach_course rnd st c)) = length (fst st) + length new"
    using new(1) by (simp add: st)
  with Cons.IH [of "forEach_course rnd st c"] new(2,3) show ?case by simp
qed












section \<open>The QR check-in\<close>

text \<open>The six ways a scan can go, with the replies that select each.\<close>

lemma handleQRCodeScanned_cases:
  fixes serve :: "request \<Rightarrow> 'db \<Rightarrow> reply \<times> 'db" and JSON_parse s qr db
  defines "run \<equiv> handleQRCodeScanned JSON_parse serve s qr db"
  obtains
    (thrown) e where "scanned_course_id JSON_parse qr = Inl e"
      "run = (check_in_failed e, db)"
  | (invalid) c where "scanned_course_id JSON_parse qr = Inr c" "\<not> truthy c"
      "run = ([Toast Destructive ''Invalid QR Code''
                 [Lit ''The scanned QR code does not contain valid course information.''],
               StopScanning], db)"
  | (not_found) c r1 db1 where "scanned_course_id JSON_parse qr = Inr c" "truthy c"
      "serve (verify_course c) db = (r1, db1)" "error r1 \<noteq> None \<or> \<not> truthy (data r1)"
      "run = ([Net (verify_course c),
               Toast Destructive ''Course not found''
                 [Lit ''The scanned QR code references a course that doesn't exist.''],
               StopScanning], db1)"
  | (duplicate) c r1 db1 course r2 db2 where "scanned_course_id JSON_parse qr = Inr c" "truthy c"
      "serve (verify_course c) db = (r1, db1)" "error r1 = None" "data r1 = Some course"
      "truthy (data r1)"
      "serve (existing_record s c) db1 = (r2, db2)" "truthy (data r2)"
      "run = ([Net (verify_course c), Net (existing_record s c),
               Toast Destructive ''Already checked in''
                 [Lit ''You've already checked in to '', Interp (get_prop course ''name''),
                  Lit '' today.''],
               StopScanning], db2)"
  | (insert_error) c r1 db1 course r2 db2 r3 db3 e where
      "scanned_course_id JSON_parse qr = Inr c" "truthy c"
      "serve (verify_course c) db = (r1, db1)" "error r1 = None" "data r1 = Some course"
      "truthy (data r1)"
      "serve (existing_record s c) db1 = (r2, db2)" "\<not> truthy (data r2)"
      "serve (create_record s c) db2 = (r3, db3)" "error r3 = Some e"
      "run = ([Net (verify_course c), Net (existing_record s c), Net (create_record s c)]
               @ check_in_failed e, db3)"
  | (success) c r1 db1 course r2 db2 r3 db3 where
      "scanned_course_id JSON_parse qr = Inr c" "truthy c"
      "serve (verify_course c) db = (r1, db1)" "error r1 = None" "data r1 = Some course"
      "truthy (data r1)"
      "serve (existing_record s c) db1 = (r2, db2)" "\<not> truthy (data r2)"
      "serve (create_record s c) db2 = (r3, db3)" "error r3 = None"
      "run = ([Net (verify_course c), Net (existing_record s c), Net (create_record s c),
               StopScanning,
               Toast Default ''Check-in successful!''
                 [Lit ''You've been marked present for '', Interp (get_prop course ''name''),
                  Lit '' ('', Interp (get_prop course ''code''), Lit '').''],
               NavigateAfter 2000 ''/student''], db3)"
proof (cases "scanned_course_id JSON_parse qr")
  case (Inl e)
  then show ?thesis using thrown by (simp add: run_def handleQRCodeScanned_def)
next
  case (Inr c)
  show ?thesis
  proof (cases "truthy c")
    case False
    then show ?thesis using Inr invalid by (simp add: run_def handleQRCodeScanned_def)
  next
    case True
    obtain r1 db1 where s1: "serve (verify_course c) db = (r1, db1)" by (cases "serve (verify_course c) db")
    show ?thesis
    proof (cases "error r1 \<noteq> None \<or> \<not> truthy (data r1)")
      case True
      then show ?thesis using Inr \<open>truthy c\<close> s1 not_found [of c r1 db1]
        by (cases "data r1") (auto simp: run_def handleQRCodeScanned_def)
    next
      case False
      then obtain course where ok: "error r1 = None" "data r1 = Some course" "truthy (data r1)"
        by (cases "data r1") auto
      obtain r2 db2 where s2: "serve (existing_record s c) db1 = (r2, db2)"
        by (cases "serve (existing_record s c) db1")
      show ?thesis
      proof (cases "truthy (data r2)")
        case True
        then show ?thesis using Inr \<open>truthy c\<close> s1 ok s2 duplicate [of c r1 db1 course r2 db2]
          by (simp add: run_def handleQRCodeScanned_def)
      next
        case False
        obtain r3 db3 where s3: "serve (create_record s c) db2 = (r3, db3)"
          by (cases "serve (create_record s c) db2")
        show ?thesis
        proof (cases "error r3")
          case None
          then show ?thesis
            using Inr \<open>truthy c\<close> s1 ok s2 False s3 success [of c r1 db1 course r2 db2 r3 db3]
            by (simp add: run_def handleQRCodeScanned_def)
        next
          case (Some e)
          then show ?thesis
            using Inr \<open>truthy c\<close> s1 ok s2 False s3 insert_error [of c r1 db1 course r2 db2 r3 db3 e]
            by (simp add: run_def handleQRCodeScanned_def)
        qed
      qed
    qed
  qed
qed

lemma requests_distinct:
  "verify_course c \<noteq> existing_record s c" "verify_course c \<noteq> create_record s c"
  "existing_record s c \<noteq> create_record s c"
  by (simp_all add: verify_course_def existing_record_def create_record_def)

text \<open>
  Claim C1, as amended. The handler makes at most three network calls, always a prefix
  of: verify the course, look for a check-in of today, insert the record; no call is
  made twice. A payload without a course id makes none; the duplicate check is made
  only when the course was found; the insert is made, and the calls are three, exactly
  when the course was found and the duplicate check returned no record.
\<close>

theorem check_in_call_sequence:
  fixes serve :: "request \<Rightarrow> 'db \<Rightarrow> reply \<times> 'db" and JSON_parse s qr db
  defines "calls \<equiv> net_calls (fst (handleQRCodeScanned JSON_parse serve s qr db))"
  shows
    "(\<exists>c. prefix calls [verify_course c, existing_record s c, create_record s c])
     \<and> distinct calls
     \<and> (\<forall>e. scanned_course_id JSON_parse qr = Inl e \<longrightarrow> calls = [])
     \<and> (\<forall>c. scanned_course_id JSON_parse qr = Inr c \<longrightarrow>
          (let r1 = fst (serve (verify_course c) db);
               db1 = snd (serve (verify_course c) db);
               r2 = fst (serve (existing_record s c) db1);
               found = (error r1 = None \<and> truthy (data r1));
               fresh = (\<not> truthy (data r2))
           in (calls = [] \<longleftrightarrow> \<not> truthy c)
            \<and> (existing_record s c \<in> set calls \<longleftrightarrow> truthy c \<and> found)
            \<and> (create_record s c \<in> set calls \<longleftrightarrow> truthy c \<and> found \<and> fresh)
            \<and> (length calls = 3 \<longleftrightarrow> truthy c \<and> found \<and> fresh)))"
proof (cases rule: handleQRCodeScanned_cases [of JSON_parse qr serve s db])
  case (thrown e)
  then show ?thesis unfolding calls_def by (simp add: check_in_failed_def)
next
  case (invalid c)
  then show ?thesis unfolding calls_def by (simp add: Let_def)
next
  case (not_found c r1 db1)
  have "prefix [verify_course c] [verify_course c, existing_record s c, create_record s c]"
    by simp
  then have "\<exists>c'. prefix [verify_course c] [verify_course c', existing_record s c', create_record s c']"
    by blast
  then show ?thesis unfolding calls_def using not_found requests_distinct [where c = c and s = s]
    by (auto simp: Let_def)
next
  case (duplicate c r1 db1 course r2 db2)
  have "prefix [verify_course c, existing_record s c]
          [verify_course c, existing_record s c, create_record s c]"
    by simp
  then have "\<exists>c'. prefix [verify_course c, existing_record s c]
          [verify_course c', existing_record s c', create_record s c']"
    by blast
  then show ?thesis unfolding calls_def using duplicate requests_distinct [where c = c and s = s]
    by (auto simp: Let_def)
next
  case (insert_error c r1 db1 course r2 db2 r3 db3 e)
  have "\<exists>c'. prefix [verify_course c, existing_record s c, create_record s c]
          [verify_course c', existing_record s c', create_record s c']"
    by (rule exI [of _ c]) simp
  then show ?thesis unfolding calls_def using insert_error requests_distinct [where c = c and s = s]
    by (auto simp: Let_def check_in_failed_def)
next
  case (success c r1 db1 course r2 db2 r3 db3)
  have "\<exists>c'. prefix [verify_course c, existing_record s c, create_record s c]
          [verify_course c', existing_record s c', create_record s c']"
    by (rule exI [of _ c]) simp
  then show ?thesis unfolding calls_def using success requests_distinct [where c = c and s = s]
    by (auto simp: Let_def)
qed

text \<open>Unfolding sets for running the handler on the example data.\<close>

lemmas handler_defs =
  handleQRCodeScanned_def scanned_course_id_def verify_course_def existing_record_def
  create_record_def check_in_failed_def js_or_def or_null_def

lemmas backend_defs =
  supabase_def select_single_def insert_row_def find_table_def find_column_def schema_def
  auth_users_table_def profiles_table_def user_roles_table_def courses_table_def
  attendance_records_table_def policies_def permitted_def has_role_def cell_def filter_ok_def
  sent_def new_row_def default_value_def type_ok_def not_null_ok_def key_sets_def same_key_def reference_ok_def
  app_role_def round_half_away_def

lemmas example_defs =
  example_server_def example_tables_def example_scanner_def example_parse_def
  example_qr_text_def example_qr_text_no_id_def example_stringify_def qrData_def qr_object_def two_check_ins_def

theorem check_in_call_sequence_witness:
  "scanned_course_id example_parse ''c1'' = Inr (Some (Str ''c1''))
   \<and> truthy (Some (Str ''c1''))
   \<and> length (net_calls (fst (handleQRCodeScanned example_parse supabase example_scanner ''c1''
                     example_server))) = 3"
proof -
  let ?c = "Some (Str ''c1'')"
  let ?calls = "net_calls (fst (handleQRCodeScanned example_parse supabase example_scanner
                  ''c1'' example_server))"
  have id: "scanned_course_id example_parse ''c1'' = Inr ?c"
    by (simp add: handler_defs example_defs)
  have found: "error (fst (supabase (verify_course ?c) example_server)) = None"
      "truthy (data (fst (supabase (verify_course ?c) example_server)))"
    by (simp_all add: handler_defs backend_defs example_defs)
  have fresh: "\<not> truthy (data (fst (supabase (existing_record example_scanner ?c)
                  (snd (supabase (verify_course ?c) example_server)))))"
    by (simp add: handler_defs backend_defs example_defs)
  have "length ?calls = 3"
    using check_in_call_sequence [where JSON_parse = example_parse and serve = supabase
        and s = example_scanner and qr = "''c1''" and db = example_server]
      id found fresh
    by (simp add: Let_def)
  with id show ?thesis by simp
qed

text \<open>
  Claim C1 as the specification states it fails: the payload \<^verbatim>\<open>{}\<close> carries no course
  id, and the handler makes no network call at all.
\<close>

theorem scan_without_course_id_counterexample:
  "net_calls (fst (handleQRCodeScanned example_parse supabase example_scanner ''{}''
                     example_server)) = []"
  by (simp add: handler_defs example_defs)




text \<open>A select changes no table, and neither does a request that comes back with an error.\<close>

lemma supabase_select_tables:
  "supabase (SelectSingle t cols fs) srv = (r, srv') \<Longrightarrow> tables srv' = tables srv"
  by (auto simp: supabase_def split: list.splits bool.splits)

lemma supabase_error_tables:
  "supabase req srv = (r, srv') \<Longrightarrow> error r \<noteq> None \<Longrightarrow> tables srv' = tables srv"
  by (cases req)
     (auto simp: supabase_def select_single_def split: list.splits bool.splits sum.splits)







text \<open>
  One check-in of today blocks the next scan, as the handler intends.
\<close>

lemma one_check_in_blocks_the_next:
  "fst (handleQRCodeScanned example_parse supabase example_scanner example_qr_text
          (example_server\<lparr> tables := example_tables(''attendance_records'' := [hd two_check_ins]) \<rparr>))
     = [Net (verify_course (Some (Str ''c1''))),
        Net (existing_record example_scanner (Some (Str ''c1''))),
        Toast Destructive ''Already checked in''
          [Lit ''You've already checked in to '', Interp (Some (Str ''Logic'')), Lit '' today.''],
        StopScanning]"
  by (simp add: handler_defs backend_defs example_defs Let_def)

text \<open>
  Claim C2 fails on the code. The claim: a student who has at least one check-in to the
  course today gets "Already checked in" and no new record. The duplicate check asks
  for a single row; when the student has two check-ins of today it returns an error and
  no data, the handler takes that for "no check-in yet" and inserts a third record.
\<close>

theorem two_check_ins_do_not_block_a_third:
  "list_all (\<lambda>r. cell r ''student_id'' = Str ''u1'' \<and> cell r ''course_id'' = Str ''c1''
                 \<and> val_le (Time (today example_scanner)) (cell r ''checked_in_at'')
                 \<and> val_le (cell r ''checked_in_at'') (Time (tomorrow example_scanner - 1)))
      two_check_ins
   \<and> fst (handleQRCodeScanned example_parse supabase example_scanner example_qr_text
          (example_server\<lparr> tables := example_tables(''attendance_records'' := two_check_ins) \<rparr>))
     = [Net (verify_course (Some (Str ''c1''))),
        Net (existing_record example_scanner (Some (Str ''c1''))),
        Net (create_record example_scanner (Some (Str ''c1''))),
        StopScanning,
        Toast Default ''Check-in successful!''
          [Lit ''You've been marked present for '', Interp (Some (Str ''Logic'')), Lit '' ('',
           Interp (Some (Str ''CS101'')), Lit '').''],
        NavigateAfter 2000 ''/student'']
   \<and> tables (snd (handleQRCodeScanned example_parse supabase example_scanner example_qr_text
          (example_server\<lparr> tables := example_tables(''attendance_records'' := two_check_ins) \<rparr>)))
        ''attendance_records''
     = two_check_ins
       @ [[(''id'', Str ''r0''), (''student_id'', Str ''u1''), (''course_id'', Str ''c1''),
           (''checked_in_at'', Time 1762596479000), (''latitude'', Num 51.5),
           (''longitude'', Num 7.25), (''location_accuracy'', Num 12),
           (''created_at'', Time 1762596479000)]]"
  by (simp add: handler_defs backend_defs example_defs Let_def decimal.simps)

theorem two_check_ins_do_not_block_a_third_witness:
  "length (tables (snd (handleQRCodeScanned example_parse supabase example_scanner
             example_qr_text
             (example_server\<lparr> tables := example_tables(''attendance_records'' := two_check_ins) \<rparr>)))
        ''attendance_records'') = 3"
  using two_check_ins_do_not_block_a_third by (simp add: two_check_ins_def)

section \<open>The database\<close>

lemmas schema_defs =
  schema_def auth_users_table_def profiles_table_def user_roles_table_def courses_table_def
  attendance_records_table_def

text \<open>What a stored row has passed.\<close>

lemma insert_row_Inr:
  "insert_row sch ps rls srv t payload = Inr r \<Longrightarrow>
   \<exists>d. find_table sch t = Some d \<and> r = new_row srv d (sent payload)
       \<and> list_all (not_null_ok r) (columns d)
       \<and> \<not> list_ex (\<lambda>ks. list_ex (same_key ks r) (tables srv t)) (key_sets d)
       \<and> list_all (reference_ok (tables srv) r) (columns d)
       \<and> (rls \<longrightarrow> permitted ps (tables srv) (auth_uid srv) t INSERT r)"
  by (auto simp: insert_row_def Let_def split: option.splits if_splits)

text \<open>
  Claim C6. For a signed-in identity the policies permit an \<^verbatim>\<open>INSERT\<close> into
  \<^verbatim>\<open>attendance_records\<close> exactly when the row's \<^verbatim>\<open>student_id\<close> is that
  identity's \<^verbatim>\<open>auth.uid()\<close>; without an identity they permit none. An insert that
  names another student, or none, comes back with an error and stores nothing.
\<close>

theorem attendance_insert_policy:
  "(permitted policies db (Some uid) ''attendance_records'' INSERT r
      \<longleftrightarrow> cell r ''student_id'' = Str uid)
   \<and> \<not> permitted policies db None ''attendance_records'' INSERT r
   \<and> (auth_uid srv = Some uid \<and> map_of (sent payload) ''student_id'' \<noteq> Some (Str uid) \<longrightarrow>
        error (fst (supabase (Insert ''attendance_records'' payload) srv)) \<noteq> None
        \<and> tables (snd (supabase (Insert ''attendance_records'' payload) srv)) = tables srv)"
proof (intro conjI impI)
  show pol: "permitted policies db (Some uid) ''attendance_records'' INSERT r
      \<longleftrightarrow> cell r ''student_id'' = Str uid" for db uid r
    by (simp add: permitted_def policies_def)
  show "\<not> permitted policies db None ''attendance_records'' INSERT r"
    by (simp add: permitted_def policies_def)
  assume a: "auth_uid srv = Some uid \<and> map_of (sent payload) ''student_id'' \<noteq> Some (Str uid)"
  have rejected: "\<exists>e. insert_row schema policies True srv ''attendance_records'' payload = Inl e"
  proof (cases "insert_row schema policies True srv ''attendance_records'' payload")
    case (Inl e)
    then show ?thesis by blast
  next
    case (Inr row)
    then obtain d where d: "find_table schema ''attendance_records'' = Some d"
        "row = new_row srv d (sent payload)"
        "permitted policies (tables srv) (auth_uid srv) ''attendance_records'' INSERT row"
      using insert_row_Inr [OF Inr] by auto
    from d(1) have "d = attendance_records_table"
      by (simp add: find_table_def schema_defs)
    with d(2) have "cell row ''student_id''
        = (case map_of (sent payload) ''student_id'' of Some v \<Rightarrow> v | None \<Rightarrow> Null)"
      by (simp add: new_row_def attendance_records_table_def cell_def default_value_def
          split: option.splits)
    with a have "cell row ''student_id'' \<noteq> Str uid"
      by (auto split: option.splits)
    with d(3) a pol show ?thesis by simp
  qed
  then obtain e where e: "insert_row schema policies True srv ''attendance_records'' payload = Inl e" ..
  show "error (fst (supabase (Insert ''attendance_records'' payload) srv)) \<noteq> None"
    using e by (simp add: supabase_def split: list.splits bool.splits)
  show "tables (snd (supabase (Insert ''attendance_records'' payload) srv)) = tables srv"
    using e by (simp add: supabase_def split: list.splits bool.splits)
qed

theorem attendance_insert_policy_witness:
  "auth_uid example_server = Some ''u1''
   \<and> map_of (sent [(''student_id'', Some (Str ''p1'')), (''course_id'', Some (Str ''c1''))])
        ''student_id'' \<noteq> Some (Str ''u1'')
   \<and> error (fst (supabase (Insert ''attendance_records''
                 [(''student_id'', Some (Str ''p1'')), (''course_id'', Some (Str ''c1''))])
               example_server))
       = Some (PostgrestError ''new row violates row-level security policy'')
   \<and> tables (snd (supabase (Insert ''attendance_records''
                 [(''student_id'', Some (Str ''p1'')), (''course_id'', Some (Str ''c1''))])
               example_server)) = example_tables"
proof -
  let ?payload = "[(''student_id'', Some (Str ''p1'')), (''course_id'', Some (Str ''c1''))]"
  have uid: "auth_uid example_server = Some ''u1''"
    by (simp add: example_server_def)
  have other: "map_of (sent ?payload) ''student_id'' \<noteq> Some (Str ''u1'')"
    by (simp add: sent_def)
  have why: "error (fst (supabase (Insert ''attendance_records'' ?payload) example_server))
               = Some (PostgrestError ''new row violates row-level security policy'')"
    by (simp add: backend_defs example_defs Let_def decimal.simps)
  from attendance_insert_policy [of example_tables "''u1''" "[]" example_server ?payload]
    uid other
  have "tables (snd (supabase (Insert ''attendance_records'' ?payload) example_server))
          = tables example_server"
    by blast
  then have "tables (snd (supabase (Insert ''attendance_records'' ?payload) example_server))
          = example_tables"
    by (simp add: example_server_def)
  with uid other why show ?thesis by blast
qed

text \<open>The foreign keys of the migration, and the effect of each on rows.\<close>

lemma schema_foreign_keys:
  "foreign_keys schema =
     [(''profiles'', ''id'', References ''auth.users'' ''id'' Cascade),
      (''user_roles'', ''user_id'', References ''auth.users'' ''id'' Cascade),
      (''courses'', ''professor_id'', References ''auth.users'' ''id'' Cascade),
      (''attendance_records'', ''student_id'', References ''auth.users'' ''id'' Cascade),
      (''attendance_records'', ''course_id'', References ''courses'' ''id'' Cascade)]"
  by (simp add: foreign_keys_def schema_defs)

lemma no_action_never:
  "d \<in> set schema \<Longrightarrow> references_dead dead No_action d r = False"
  by (auto simp: schema_defs references_dead_def)

lemma references_dead_tables:
  "references_dead dead Cascade auth_users_table = (\<lambda>r. False)"
  "references_dead dead Cascade profiles_table
     = (\<lambda>r. cell r ''id'' \<noteq> Null
            \<and> list_ex (\<lambda>x. cell x ''id'' = cell r ''id'') (dead ''auth.users''))"
  "references_dead dead Cascade user_roles_table
     = (\<lambda>r. cell r ''user_id'' \<noteq> Null
            \<and> list_ex (\<lambda>x. cell x ''id'' = cell r ''user_id'') (dead ''auth.users''))"
  "references_dead dead Cascade courses_table
     = (\<lambda>r. cell r ''professor_id'' \<noteq> Null
            \<and> list_ex (\<lambda>x. cell x ''id'' = cell r ''professor_id'') (dead ''auth.users''))"
  "references_dead dead Cascade attendance_records_table
     = (\<lambda>r. cell r ''student_id'' \<noteq> Null
              \<and> list_ex (\<lambda>x. cell x ''id'' = cell r ''student_id'') (dead ''auth.users'')
            \<or> cell r ''course_id'' \<noteq> Null
              \<and> list_ex (\<lambda>x. cell x ''id'' = cell r ''course_id'') (dead ''courses''))"
  by (simp_all add: references_dead_def schema_defs fun_eq_iff)

lemma table_names:
  "table_name auth_users_table = ''auth.users''" "table_name profiles_table = ''profiles''"
  "table_name user_roles_table = ''user_roles''" "table_name courses_table = ''courses''"
  "table_name attendance_records_table = ''attendance_records''"
  by (simp_all add: schema_defs)

declare cascade.simps [simp del]

lemma cascade_untouched:
  "t \<notin> table_name ` set ds \<Longrightarrow>
   fst (cascade ds dead db) t = dead t \<and> snd (cascade ds dead db) t = db t"
  by (induction ds arbitrary: dead db) (auto simp: cascade.simps)

lemma cascade_append:
  "cascade (xs @ ys) dead db = cascade ys (fst (cascade xs dead db)) (snd (cascade xs dead db))"
  by (induction xs arbitrary: dead db) (auto simp: cascade.simps)

lemma cascade_at:
  assumes "distinct (map table_name (pre @ d # post))"
  shows "snd (cascade (pre @ d # post) dead db) (table_name d)
           = filter (\<lambda>r. \<not> references_dead (fst (cascade pre dead db)) Cascade d r)
               (db (table_name d))"
    and "fst (cascade (pre @ d # post) dead db) (table_name d)
           = dead (table_name d)
             @ filter (references_dead (fst (cascade pre dead db)) Cascade d) (db (table_name d))"
proof -
  have pre: "table_name d \<notin> table_name ` set pre" and post: "table_name d \<notin> table_name ` set post"
    using assms by auto
  let ?dead1 = "fst (cascade pre dead db)" and ?db1 = "snd (cascade pre dead db)"
  have at: "?dead1 (table_name d) = dead (table_name d)" "?db1 (table_name d) = db (table_name d)"
    using cascade_untouched [OF pre] by simp_all
  have step: "cascade (pre @ d # post) dead db =
      cascade post
        (?dead1(table_name d := ?dead1 (table_name d)
            @ filter (references_dead ?dead1 Cascade d) (?db1 (table_name d))))
        (?db1(table_name d := filter (\<lambda>r. \<not> references_dead ?dead1 Cascade d r)
            (?db1 (table_name d))))"
    by (simp add: cascade_append cascade.simps)
  show "snd (cascade (pre @ d # post) dead db) (table_name d)
           = filter (\<lambda>r. \<not> references_dead ?dead1 Cascade d r) (db (table_name d))"
    unfolding step using cascade_untouched [OF post] at by simp
  show "fst (cascade (pre @ d # post) dead db) (table_name d)
           = dead (table_name d) @ filter (references_dead ?dead1 Cascade d) (db (table_name d))"
    unfolding step using cascade_untouched [OF post] at by simp
qed

lemma references_one_of:
  assumes "V \<noteq> []" and "\<forall>x\<in>set V. cell x k = Str u"
  shows "(v \<noteq> Null \<and> list_ex (\<lambda>x. cell x k = v) V) = (v = Str u)"
proof -
  from assms obtain x where "x \<in> set V" "cell x k = Str u"
    by (cases V) auto
  with assms(2) show ?thesis by (auto simp: list_ex_iff)
qed

lemma dead_users:
  assumes "''auth.users'' \<notin> table_name ` set rest" and "distinct (map table_name rest)"
  shows "fst (cascade (auth_users_table # rest) dead db) ''auth.users'' = dead ''auth.users''"
  using cascade_at(2) [of "[]" auth_users_table rest dead db] assms
  by (simp add: table_names references_dead_tables cascade.simps)

lemma dead_courses:
  "fst (cascade [auth_users_table, profiles_table, user_roles_table, courses_table] dead db)
     ''courses''
   = dead ''courses''
     @ filter (\<lambda>r. cell r ''professor_id'' \<noteq> Null
                   \<and> list_ex (\<lambda>x. cell x ''id'' = cell r ''professor_id'') (dead ''auth.users''))
         (db ''courses'')"
proof -
  have "fst (cascade [auth_users_table, profiles_table, user_roles_table] dead db) ''auth.users''
          = dead ''auth.users''"
    by (rule dead_users) (simp_all add: table_names)
  then show ?thesis
    using cascade_at(2) [of "[auth_users_table, profiles_table, user_roles_table]" courses_table
            "[]" dead db]
    by (simp add: table_names references_dead_tables)
qed

lemma cascade_schema:
  fixes dead db
  defines "db' \<equiv> snd (cascade schema dead db)"
  shows "db' ''auth.users'' = db ''auth.users''"
    and "db' ''profiles''
           = filter (\<lambda>r. \<not> (cell r ''id'' \<noteq> Null
                  \<and> list_ex (\<lambda>x. cell x ''id'' = cell r ''id'') (dead ''auth.users'')))
               (db ''profiles'')"
    and "db' ''user_roles''
           = filter (\<lambda>r. \<not> (cell r ''user_id'' \<noteq> Null
                  \<and> list_ex (\<lambda>x. cell x ''id'' = cell r ''user_id'') (dead ''auth.users'')))
               (db ''user_roles'')"
    and "db' ''courses''
           = filter (\<lambda>r. \<not> (cell r ''professor_id'' \<noteq> Null
                  \<and> list_ex (\<lambda>x. cell x ''id'' = cell r ''professor_id'') (dead ''auth.users'')))
               (db ''courses'')"
    and "db' ''attendance_records''
           = filter (\<lambda>r. \<not> (cell r ''student_id'' \<noteq> Null
                    \<and> list_ex (\<lambda>x. cell x ''id'' = cell r ''student_id'') (dead ''auth.users'')
                  \<or> cell r ''course_id'' \<noteq> Null
                    \<and> list_ex (\<lambda>x. cell x ''id'' = cell r ''course_id'')
                         (dead ''courses''
                          @ filter (\<lambda>r. cell r ''professor_id'' \<noteq> Null
                                \<and> list_ex (\<lambda>x. cell x ''id'' = cell r ''professor_id'')
                                     (dead ''auth.users'')) (db ''courses''))))
               (db ''attendance_records'')"
proof -
  have u1: "fst (cascade [auth_users_table] dead db) ''auth.users'' = dead ''auth.users''"
    and u2: "fst (cascade [auth_users_table, profiles_table] dead db) ''auth.users''
               = dead ''auth.users''"
    and u3: "fst (cascade [auth_users_table, profiles_table, user_roles_table] dead db)
               ''auth.users'' = dead ''auth.users''"
    and u4: "fst (cascade [auth_users_table, profiles_table, user_roles_table, courses_table]
               dead db) ''auth.users'' = dead ''auth.users''"
    by (rule dead_users, simp add: table_names, simp add: table_names)+
  show "db' ''auth.users'' = db ''auth.users''"
    unfolding db'_def schema_def
    using cascade_at(1) [of "[]" auth_users_table
            "[profiles_table, user_roles_table, courses_table, attendance_records_table]" dead db]
    by (simp add: table_names references_dead_tables)
  show "db' ''profiles''
           = filter (\<lambda>r. \<not> (cell r ''id'' \<noteq> Null
                  \<and> list_ex (\<lambda>x. cell x ''id'' = cell r ''id'') (dead ''auth.users'')))
               (db ''profiles'')"
    unfolding db'_def schema_def
    using cascade_at(1) [of "[auth_users_table]" profiles_table
            "[user_roles_table, courses_table, attendance_records_table]" dead db] u1
    by (simp add: table_names references_dead_tables)
  show "db' ''user_roles''
           = filter (\<lambda>r. \<not> (cell r ''user_id'' \<noteq> Null
                  \<and> list_ex (\<lambda>x. cell x ''id'' = cell r ''user_id'') (dead ''auth.users'')))
               (db ''user_roles'')"
    unfolding db'_def schema_def
    using cascade_at(1) [of "[auth_users_table, profiles_table]" user_roles_table
            "[courses_table, attendance_records_table]" dead db] u2
    by (simp add: table_names references_dead_tables)
  show "db' ''courses''
           = filter (\<lambda>r. \<not> (cell r ''professor_id'' \<noteq> Null
                  \<and> list_ex (\<lambda>x. cell x ''id'' = cell r ''professor_id'') (dead ''auth.users'')))
               (db ''courses'')"
    unfolding db'_def schema_def
    using cascade_at(1) [of "[auth_users_table, profiles_table, user_roles_table]" courses_table
            "[attendance_records_table]" dead db] u3
    by (simp add: table_names references_dead_tables)
  show "db' ''attendance_records''
           = filter (\<lambda>r. \<not> (cell r ''student_id'' \<noteq> Null
                    \<and> list_ex (\<lambda>x. cell x ''id'' = cell r ''student_id'') (dead ''auth.users'')
                  \<or> cell r ''course_id'' \<noteq> Null
                    \<and> list_ex (\<lambda>x. cell x ''id'' = cell r ''course_id'')
                         (dead ''courses''
                          @ filter (\<lambda>r. cell r ''professor_id'' \<noteq> Null
                                \<and> list_ex (\<lambda>x. cell x ''id'' = cell r ''professor_id'')
                                     (dead ''auth.users'')) (db ''courses''))))
               (db ''attendance_records'')"
    unfolding db'_def schema_def
    using cascade_at(1) [of "[auth_users_table, profiles_table, user_roles_table, courses_table]"
            attendance_records_table "[]" dead db] u4 dead_courses [of dead db]
    by (simp add: table_names references_dead_tables)
qed

lemma delete_rows_schema:
  "delete_rows schema db t P
     = Inr (snd (cascade schema ((\<lambda>x. [])(t := filter P (db t)))
                   (db(t := filter (\<lambda>r. \<not> P r) (db t)))))"
proof -
  have "\<not> list_ex (\<lambda>d. list_ex (references_dead dead No_action d) (db' (table_name d))) schema"
    for dead db'
    using no_action_never by (simp add: list_ex_iff)
  then show ?thesis
    by (simp add: delete_rows_def split: prod.splits)
qed

lemma insert_keeps_roles_unique:
  assumes inv: "\<forall>u ro. length (role_rows (tables srv) u ro) \<le> 1"
      and ins: "insert_row schema ps rls srv t payload = Inr r"
  shows "\<forall>u ro. length (role_rows ((tables srv)(t := tables srv t @ [r])) u ro) \<le> 1"
proof (cases "t = ''user_roles''")
  case False
  then show ?thesis using inv by (simp add: role_rows_def)
next
  case True
  from insert_row_Inr [OF ins] obtain d where d: "find_table schema t = Some d"
      "list_all (not_null_ok r) (columns d)"
      "\<not> list_ex (\<lambda>ks. list_ex (same_key ks r) (tables srv t)) (key_sets d)"
    by blast
  from d(1) True have "d = user_roles_table"
    by (simp add: find_table_def schema_defs)
  with d(2,3) True have nn: "cell r ''user_id'' \<noteq> Null" "cell r ''role'' \<noteq> Null"
    and fresh: "\<forall>x\<in>set (tables srv ''user_roles'').
                  \<not> (cell r ''user_id'' = cell x ''user_id'' \<and> cell r ''role'' = cell x ''role'')"
    by (auto simp: user_roles_table_def not_null_ok_def key_sets_def same_key_def list_ex_iff)
  show ?thesis
  proof (intro allI)
    fix u ro
    show "length (role_rows ((tables srv)(t := tables srv t @ [r])) u ro) \<le> 1"
    proof (cases "cell r ''user_id'' = u \<and> cell r ''role'' = ro")
      case False
      then have "role_rows ((tables srv)(t := tables srv t @ [r])) u ro = role_rows (tables srv) u ro"
        using True by (auto simp: role_rows_def)
      with inv show ?thesis by simp
    next
      case match: True
      have "role_rows (tables srv) u ro = []"
        using fresh match by (auto simp: role_rows_def filter_empty_conv)
      then show ?thesis using True match by (simp add: role_rows_def)
    qed
  qed
qed

lemma supabase_keeps_roles_unique:
  assumes "\<forall>u ro. length (role_rows (tables srv) u ro) \<le> 1"
  shows "\<forall>u ro. length (role_rows (tables (snd (supabase req srv))) u ro) \<le> 1"
proof (cases req)
  case (SelectSingle t cols fs)
  have "tables (snd (supabase (SelectSingle t cols fs) srv)) = tables srv"
    by (rule supabase_select_tables [of t cols fs srv "fst (supabase (SelectSingle t cols fs) srv)"])
       simp
  with assms SelectSingle show ?thesis by simp
next
  case (Insert t payload)
  show ?thesis
  proof (cases "insert_row schema policies True srv t payload")
    case (Inl e)
    then have "tables (snd (supabase req srv)) = tables srv"
      using Insert by (simp add: supabase_def split: list.splits bool.splits)
    with assms show ?thesis by simp
  next
    case (Inr r)
    then have "tables (snd (supabase req srv)) = tables srv
               \<or> tables (snd (supabase req srv)) = (tables srv)(t := tables srv t @ [r])"
      using Insert by (simp add: supabase_def split: list.splits bool.splits)
    with assms insert_keeps_roles_unique [OF assms Inr] show ?thesis by auto
  qed
qed

lemma delete_keeps_roles_unique:
  assumes inv: "\<forall>u ro. length (role_rows db u ro) \<le> 1"
      and del: "delete_rows schema db t P = Inr db'"
  shows "\<forall>u ro. length (role_rows db' u ro) \<le> 1"
proof -
  let ?dead = "(\<lambda>x. [])(t := filter P (db t))" and ?db0 = "db(t := filter (\<lambda>r. \<not> P r) (db t))"
  have db': "db' = snd (cascade schema ?dead ?db0)"
    using del by (simp add: delete_rows_schema)
  obtain Q where "db' ''user_roles'' = filter Q (?db0 ''user_roles'')"
    unfolding db' using cascade_schema(3) [of ?dead ?db0] by blast
  moreover obtain Q' where "?db0 ''user_roles'' = filter Q' (db ''user_roles'')"
  proof (cases "t = ''user_roles''")
    case True
    then have "?db0 ''user_roles'' = filter (\<lambda>r. \<not> P r) (db ''user_roles'')" by simp
    then show ?thesis using that by blast
  next
    case False
    then have "?db0 ''user_roles'' = filter (\<lambda>r. True) (db ''user_roles'')" by simp
    then show ?thesis using that by blast
  qed
  ultimately have "db' ''user_roles'' = filter (\<lambda>r. Q' r \<and> Q r) (db ''user_roles'')"
    by simp
  then have "role_rows db' u ro = filter (\<lambda>r. Q' r \<and> Q r) (role_rows db u ro)" for u ro
    by (auto simp: role_rows_def intro: filter_cong)
  then have "length (role_rows db' u ro) \<le> length (role_rows db u ro)" for u ro
    by simp
  with inv show ?thesis by (meson le_trans)
qed

lemma delete_user_cascades:
  assumes ex: "list_ex (\<lambda>r. cell r ''id'' = Str u) (db ''auth.users'')"
  shows "\<exists>db'. delete_rows schema db ''auth.users'' (\<lambda>r. cell r ''id'' = Str u) = Inr db'
           \<and> \<not> list_ex (\<lambda>r. cell r ''id'' = Str u) (db' ''auth.users'')
           \<and> \<not> list_ex (\<lambda>r. cell r ''id'' = Str u) (db' ''profiles'')
           \<and> \<not> list_ex (\<lambda>r. cell r ''user_id'' = Str u) (db' ''user_roles'')
           \<and> \<not> list_ex (\<lambda>r. cell r ''professor_id'' = Str u) (db' ''courses'')
           \<and> \<not> list_ex (\<lambda>r. cell r ''student_id'' = Str u) (db' ''attendance_records'')"
proof -
  let ?P = "\<lambda>r. cell r ''id'' = Str u"
  let ?V = "filter ?P (db ''auth.users'')"
  let ?dead = "(\<lambda>x. [])(''auth.users'' := ?V)"
  let ?db0 = "db(''auth.users'' := filter (\<lambda>r. \<not> ?P r) (db ''auth.users''))"
  let ?db' = "snd (cascade schema ?dead ?db0)"
  have V: "?V \<noteq> []" "\<forall>x\<in>set ?V. cell x ''id'' = Str u"
    using ex by (auto simp: list_ex_iff filter_empty_conv)
  have one: "(v \<noteq> Null \<and> list_ex (\<lambda>x. cell x ''id'' = v) ?V) = (v = Str u)" for v
    by (rule references_one_of [OF V])
  have d: "?dead ''auth.users'' = ?V" by simp
  have "delete_rows schema db ''auth.users'' ?P = Inr ?db'"
    by (rule delete_rows_schema)
  moreover have "\<not> list_ex ?P (?db' ''auth.users'')"
    by (simp add: cascade_schema(1) list_ex_iff)
  moreover have "\<not> list_ex (\<lambda>r. cell r ''id'' = Str u) (?db' ''profiles'')"
    by (simp only: cascade_schema(2) d one) (simp add: list_ex_iff)
  moreover have "\<not> list_ex (\<lambda>r. cell r ''user_id'' = Str u) (?db' ''user_roles'')"
    by (simp only: cascade_schema(3) d one) (simp add: list_ex_iff)
  moreover have "\<not> list_ex (\<lambda>r. cell r ''professor_id'' = Str u) (?db' ''courses'')"
    by (simp only: cascade_schema(4) d one) (simp add: list_ex_iff)
  moreover have "\<not> list_ex (\<lambda>r. cell r ''student_id'' = Str u) (?db' ''attendance_records'')"
    by (simp only: cascade_schema(5) d one) (simp add: list_ex_iff)
  ultimately show ?thesis by blast
qed

lemma delete_course_cascades:
  assumes ex: "list_ex (\<lambda>r. cell r ''id'' = Str c) (db ''courses'')"
  shows "\<exists>db'. delete_rows schema db ''courses'' (\<lambda>r. cell r ''id'' = Str c) = Inr db'
           \<and> \<not> list_ex (\<lambda>r. cell r ''id'' = Str c) (db' ''courses'')
           \<and> \<not> list_ex (\<lambda>r. cell r ''course_id'' = Str c) (db' ''attendance_records'')"
proof -
  let ?P = "\<lambda>r. cell r ''id'' = Str c"
  let ?V = "filter ?P (db ''courses'')"
  let ?dead = "(\<lambda>x. [])(''courses'' := ?V)"
  let ?db0 = "db(''courses'' := filter (\<lambda>r. \<not> ?P r) (db ''courses''))"
  let ?db' = "snd (cascade schema ?dead ?db0)"
  have V: "?V \<noteq> []" "\<forall>x\<in>set ?V. cell x ''id'' = Str c"
    using ex by (auto simp: list_ex_iff filter_empty_conv)
  have one: "(v \<noteq> Null \<and> list_ex (\<lambda>x. cell x ''id'' = v) ?V) = (v = Str c)" for v
    by (rule references_one_of [OF V])
  have d: "?dead ''auth.users'' = []" "?dead ''courses'' = ?V" by simp_all
  have "delete_rows schema db ''courses'' ?P = Inr ?db'"
    by (rule delete_rows_schema)
  moreover have "\<not> list_ex ?P (?db' ''courses'')"
    by (simp only: cascade_schema(4) d) (simp add: list_ex_iff)
  moreover have "\<not> list_ex (\<lambda>r. cell r ''course_id'' = Str c) (?db' ''attendance_records'')"
    by (simp only: cascade_schema(5) d) (use ex in \<open>auto simp: list_ex_iff\<close>)
  ultimately show ?thesis by blast
qed

text \<open>
  Claim C8. The foreign keys of the schema are the five the claim lists, each
  \<^verbatim>\<open>ON DELETE CASCADE\<close>. \<^verbatim>\<open>UNIQUE(user_id, role)\<close>: no table state with at most
  one \<^verbatim>\<open>user_roles\<close> row for each user and role (the empty one is such) is taken by a
  request or a delete to one with two. Deleting a user deletes, and is not stopped by,
  the profile, the roles, the courses and the attendance records that reference the
  user; deleting a course deletes the attendance records that reference it.
\<close>

theorem schema_constraints:
  "foreign_keys schema =
     [(''profiles'', ''id'', References ''auth.users'' ''id'' Cascade),
      (''user_roles'', ''user_id'', References ''auth.users'' ''id'' Cascade),
      (''courses'', ''professor_id'', References ''auth.users'' ''id'' Cascade),
      (''attendance_records'', ''student_id'', References ''auth.users'' ''id'' Cascade),
      (''attendance_records'', ''course_id'', References ''courses'' ''id'' Cascade)]
   \<and> (\<forall>u ro. length (role_rows (\<lambda>t. []) u ro) \<le> 1)
   \<and> ((\<forall>u ro. length (role_rows (tables srv) u ro) \<le> 1) \<longrightarrow>
        (\<forall>u ro. length (role_rows (tables (snd (supabase req srv))) u ro) \<le> 1))
   \<and> ((\<forall>u ro. length (role_rows db u ro) \<le> 1) \<and> delete_rows schema db t P = Inr db1 \<longrightarrow>
        (\<forall>u ro. length (role_rows db1 u ro) \<le> 1))
   \<and> (list_ex (\<lambda>r. cell r ''id'' = Str u) (db ''auth.users'') \<longrightarrow>
        (\<exists>db'. delete_rows schema db ''auth.users'' (\<lambda>r. cell r ''id'' = Str u) = Inr db'
           \<and> \<not> list_ex (\<lambda>r. cell r ''id'' = Str u) (db' ''auth.users'')
           \<and> \<not> list_ex (\<lambda>r. cell r ''id'' = Str u) (db' ''profiles'')
           \<and> \<not> list_ex (\<lambda>r. cell r ''user_id'' = Str u) (db' ''user_roles'')
           \<and> \<not> list_ex (\<lambda>r. cell r ''professor_id'' = Str u) (db' ''courses'')
           \<and> \<not> list_ex (\<lambda>r. cell r ''student_id'' = Str u) (db' ''attendance_records'')))
   \<and> (list_ex (\<lambda>r. cell r ''id'' = Str c) (db ''courses'') \<longrightarrow>
        (\<exists>db'. delete_rows schema db ''courses'' (\<lambda>r. cell r ''id'' = Str c) = Inr db'
           \<and> \<not> list_ex (\<lambda>r. cell r ''id'' = Str c) (db' ''courses'')
           \<and> \<not> list_ex (\<lambda>r. cell r ''course_id'' = Str c) (db' ''attendance_records'')))"
proof (intro conjI impI)
  show "foreign_keys schema =
     [(''profiles'', ''id'', References ''auth.users'' ''id'' Cascade),
      (''user_roles'', ''user_id'', References ''auth.users'' ''id'' Cascade),
      (''courses'', ''professor_id'', References ''auth.users'' ''id'' Cascade),
      (''attendance_records'', ''student_id'', References ''auth.users'' ''id'' Cascade),
      (''attendance_records'', ''course_id'', References ''courses'' ''id'' Cascade)]"
    by (rule schema_foreign_keys)
  show "\<forall>u ro. length (role_rows (\<lambda>t. []) u ro) \<le> 1"
    by (simp add: role_rows_def)
  show "\<forall>u ro. length (role_rows (tables (snd (supabase req srv))) u ro) \<le> 1"
    if "\<forall>u ro. length (role_rows (tables srv) u ro) \<le> 1"
    using that by (rule supabase_keeps_roles_unique)
  show "\<forall>u ro. length (role_rows db1 u ro) \<le> 1"
    if "(\<forall>u ro. length (role_rows db u ro) \<le> 1) \<and> delete_rows schema db t P = Inr db1"
    using that delete_keeps_roles_unique by blast
  show "\<exists>db'. delete_rows schema db ''auth.users'' (\<lambda>r. cell r ''id'' = Str u) = Inr db'
           \<and> \<not> list_ex (\<lambda>r. cell r ''id'' = Str u) (db' ''auth.users'')
           \<and> \<not> list_ex (\<lambda>r. cell r ''id'' = Str u) (db' ''profiles'')
           \<and> \<not> list_ex (\<lambda>r. cell r ''user_id'' = Str u) (db' ''user_roles'')
           \<and> \<not> list_ex (\<lambda>r. cell r ''professor_id'' = Str u) (db' ''courses'')
           \<and> \<not> list_ex (\<lambda>r. cell r ''student_id'' = Str u) (db' ''attendance_records'')"
    if "list_ex (\<lambda>r. cell r ''id'' = Str u) (db ''auth.users'')"
    using that by (rule delete_user_cascades)
  show "\<exists>db'. delete_rows schema db ''courses'' (\<lambda>r. cell r ''id'' = Str c) = Inr db'
           \<and> \<not> list_ex (\<lambda>r. cell r ''id'' = Str c) (db' ''courses'')
           \<and> \<not> list_ex (\<lambda>r. cell r ''course_id'' = Str c) (db' ''attendance_records'')"
    if "list_ex (\<lambda>r. cell r ''id'' = Str c) (db ''courses'')"
    using that by (rule delete_course_cascades)
qed

theorem schema_constraints_witness:
  "length (role_rows example_tables (Str ''u1'') (Str ''student'')) = 1
   \<and> error (fst (supabase (Insert ''user_roles''
                 [(''user_id'', Some (Str ''u1'')), (''role'', Some (Str ''student''))])
               example_server))
       = Some (PostgrestError ''duplicate key value violates unique constraint'')
   \<and> length (role_rows (tables (snd (supabase (Insert ''user_roles''
                 [(''user_id'', Some (Str ''u1'')), (''role'', Some (Str ''student''))])
               example_server))) (Str ''u1'') (Str ''student'')) \<le> 1
   \<and> list_ex (\<lambda>r. cell r ''id'' = Str ''p1'') (example_tables ''auth.users'')
   \<and> (\<exists>db'. delete_rows schema example_tables ''auth.users'' (\<lambda>r. cell r ''id'' = Str ''p1'')
               = Inr db'
          \<and> \<not> list_ex (\<lambda>r. cell r ''professor_id'' = Str ''p1'') (db' ''courses''))"
proof -
  let ?req = "Insert ''user_roles''
                 [(''user_id'', Some (Str ''u1'')), (''role'', Some (Str ''student''))]"
  note T = schema_constraints [of example_server ?req example_tables "''auth.users''"
             "\<lambda>r. False" example_tables "''p1''" "''c1''"]
  have one: "length (role_rows example_tables (Str ''u1'') (Str ''student'')) = 1"
    by (simp add: role_rows_def example_tables_def cell_def)
  have inv: "\<forall>u ro. length (role_rows (tables example_server) u ro) \<le> 1"
    by (simp add: role_rows_def example_server_def example_tables_def cell_def)
  have dup: "error (fst (supabase ?req example_server))
       = Some (PostgrestError ''duplicate key value violates unique constraint'')"
    by (simp add: backend_defs example_defs Let_def decimal.simps)
  have still: "length (role_rows (tables (snd (supabase ?req example_server)))
                 (Str ''u1'') (Str ''student'')) \<le> 1"
    using T inv by blast
  have ex: "list_ex (\<lambda>r. cell r ''id'' = Str ''p1'') (example_tables ''auth.users'')"
    by (simp add: example_tables_def cell_def)
  have del: "\<exists>db'. delete_rows schema example_tables ''auth.users''
                     (\<lambda>r. cell r ''id'' = Str ''p1'') = Inr db'
          \<and> \<not> list_ex (\<lambda>r. cell r ''professor_id'' = Str ''p1'') (db' ''courses'')"
    using T ex by blast
  from one dup still ex del show ?thesis by blast
qed

section \<open>Course creation\<close>

lemma courseSchema_parse_empty:
  "name = Some [] \<or> code = Some [] \<Longrightarrow> \<exists>e. courseSchema_parse name code semester year = Inl e"
  by (auto simp: courseSchema_parse_def string_min1_def Let_def split: option.splits)

lemma courseSchema_parse_Inr:
  "courseSchema_parse name code semester year = Inr d \<Longrightarrow>
   name = Some (in_name d) \<and> in_name d \<noteq> [] \<and> code = Some (in_code d) \<and> in_code d \<noteq> []
   \<and> in_semester d = semester \<and> in_year d = year"
  by (auto simp: courseSchema_parse_def string_min1_def Let_def split: option.splits if_splits)

lemma courseSchema_parse_filled:
  "n \<noteq> [] \<Longrightarrow> c \<noteq> [] \<Longrightarrow>
   courseSchema_parse (Some n) (Some c) semester year
     = Inr \<lparr> in_name = n, in_code = c, in_semester = semester, in_year = year \<rparr>"
  by (simp add: courseSchema_parse_def string_min1_def Let_def)

text \<open>
  Claim C7. A form with an empty name or an empty code fails validation: the handler
  logs the error, shows one destructive notification and makes no database call. With a
  name and a code the insert is sent, whatever the semester and the year; an insert
  carries \<^verbatim>\<open>null\<close> for a semester, and for a year, that is left out. Unless the course
  was created (validation or insert failed) the tables are as before and the failure is
  shown as a destructive notification.
\<close>

theorem course_form_validation:
  fixes parseInt uid form srv
  defines "run \<equiv> handleSubmit parseInt supabase uid form srv"
  shows
  "((form_name form = Some [] \<or> form_code form = Some []) \<longrightarrow>
      (\<exists>e. run = ([SetLoading True, ConsoleError ''Error creating course:'' e,
                   Toast Destructive ''Failed to create course''
                     (message_or e ''Please check your input and try again.''),
                   SetLoading False], srv)))
   \<and> (\<forall>n c. form_name form = Some n \<and> n \<noteq> [] \<and> form_code form = Some c \<and> c \<noteq> [] \<longrightarrow>
         (\<exists>payload. Net (Insert ''courses'' payload) \<in> set (fst run)))
   \<and> (\<forall>t payload. Net (Insert t payload) \<in> set (fst run) \<longrightarrow>
         t = ''courses''
         \<and> (form_semester form = None \<or> form_semester form = Some [] \<longrightarrow>
              map_of payload ''semester'' = Some (Some Null))
         \<and> (form_year form = None \<or> form_year form = Some [] \<longrightarrow>
              map_of payload ''year'' = Some (Some Null)))
   \<and> ((\<forall>d. Toast Default ''Course created!'' d \<notin> set (fst run)) \<longrightarrow>
         tables (snd run) = tables srv
         \<and> (\<exists>e. Toast Destructive ''Failed to create course''
                   (message_or e ''Please check your input and try again.'') \<in> set (fst run)))"
proof -
  let ?parsed = "courseSchema_parse (form_name form) (form_code form)
                   (or_undefined (form_semester form)) (or_undefined (form_year form))"
  have invalid: "run = ([SetLoading True, ConsoleError ''Error creating course:'' e,
                   Toast Destructive ''Failed to create course''
                     (message_or e ''Please check your input and try again.''),
                   SetLoading False], srv)" if "?parsed = Inl e" for e
    using that by (simp add: run_def handleSubmit_def create_failed_def)
  have sent: "fst run = [SetLoading True, Net (create_course parseInt uid d)]
                 @ create_failed e @ [SetLoading False]
              \<and> tables (snd run) = tables srv"
    if "?parsed = Inr d" "error (fst (supabase (create_course parseInt uid d) srv)) = Some e"
    for d e
  proof -
    obtain r srv1 where s: "supabase (create_course parseInt uid d) srv = (r, srv1)"
      by (cases "supabase (create_course parseInt uid d) srv")
    with that(2) have "error r = Some e" by simp
    then have "tables srv1 = tables srv"
      using supabase_error_tables [OF s] by simp
    then show ?thesis
      using that(1) s \<open>error r = Some e\<close> by (simp add: run_def handleSubmit_def)
  qed
  have created: "fst run = [SetLoading True, Net (create_course parseInt uid d),
                   Toast Default ''Course created!''
                     [Interp (Some (Str (in_name d))), Lit '' has been successfully created.''],
                   Navigate ''/professor'', SetLoading False]"
    if "?parsed = Inr d" "error (fst (supabase (create_course parseInt uid d) srv)) = None"
    for d
    using that by (auto simp: run_def handleSubmit_def split: prod.splits)
  have inserts: "Insert t payload = create_course parseInt uid d"
    if "?parsed = Inr d" "Net (Insert t payload) \<in> set (fst run)" for d t payload
  proof (cases "error (fst (supabase (create_course parseInt uid d) srv))")
    case None
    from created [OF that(1) None] that(2) show ?thesis by simp
  next
    case (Some e)
    from sent [OF that(1) Some] that(2) show ?thesis by (simp add: create_failed_def)
  qed
  show ?thesis
  proof (intro conjI allI impI)
    assume "form_name form = Some [] \<or> form_code form = Some []"
    then obtain e where "?parsed = Inl e"
      using courseSchema_parse_empty by blast
    from invalid [OF this]
    show "\<exists>e. run = ([SetLoading True, ConsoleError ''Error creating course:'' e,
                   Toast Destructive ''Failed to create course''
                     (message_or e ''Please check your input and try again.''),
                   SetLoading False], srv)"
      by blast
  next
    fix n c
    assume "form_name form = Some n \<and> n \<noteq> [] \<and> form_code form = Some c \<and> c \<noteq> []"
    then obtain d where d: "?parsed = Inr d"
      using courseSchema_parse_filled by simp
    have "Net (create_course parseInt uid d) \<in> set (fst run)"
    proof (cases "error (fst (supabase (create_course parseInt uid d) srv))")
      case None
      from created [OF d None] show ?thesis by simp
    next
      case (Some e)
      from sent [OF d Some] show ?thesis by simp
    qed
    then show "\<exists>payload. Net (Insert ''courses'' payload) \<in> set (fst run)"
      unfolding create_course_def by blast
  next
    fix t payload
    assume net: "Net (Insert t payload) \<in> set (fst run)"
    have "\<exists>d. ?parsed = Inr d"
    proof (cases ?parsed)
      case (Inl e)
      from invalid [OF this] net show ?thesis by simp
    next
      case (Inr d)
      then show ?thesis by blast
    qed
    then obtain d where d: "?parsed = Inr d" ..
    from inserts [OF d net] have eq: "Insert t payload = create_course parseInt uid d" .
    from courseSchema_parse_Inr [OF d]
    have opt: "in_semester d = or_undefined (form_semester form)"
      "in_year d = or_undefined (form_year form)"
      by simp_all
    show "t = ''courses''" using eq by (simp add: create_course_def)
    show "map_of payload ''semester'' = Some (Some Null)"
      if "form_semester form = None \<or> form_semester form = Some []"
      using that eq opt by (auto simp: create_course_def or_undefined_def or_null_def)
    show "map_of payload ''year'' = Some (Some Null)"
      if "form_year form = None \<or> form_year form = Some []"
      using that eq opt by (auto simp: create_course_def or_undefined_def)
  next
    assume failed: "\<forall>d. Toast Default ''Course created!'' d \<notin> set (fst run)"
    have "tables (snd run) = tables srv
         \<and> (\<exists>e. Toast Destructive ''Failed to create course''
                   (message_or e ''Please check your input and try again.'') \<in> set (fst run))"
    proof (cases ?parsed)
      case (Inl e)
      from invalid [OF this] show ?thesis by auto
    next
      case (Inr d)
      show ?thesis
      proof (cases "error (fst (supabase (create_course parseInt uid d) srv))")
        case None
        from created [OF Inr None] failed show ?thesis by simp
      next
        case (Some e)
        from sent [OF Inr Some] show ?thesis by (auto simp: create_failed_def)
      qed
    qed
    then show "tables (snd run) = tables srv"
      and "\<exists>e. Toast Destructive ''Failed to create course''
                   (message_or e ''Please check your input and try again.'') \<in> set (fst run)"
      by simp_all
  qed
qed

lemmas form_defs =
  handleSubmit_def courseSchema_parse_def string_min1_def or_undefined_def create_course_def
  create_failed_def or_null_def example_parseInt_def

theorem course_form_validation_witness:
  "form_name \<lparr> form_name = Some [], form_code = Some ''MA101'', form_semester = Some [],
               form_year = Some [] \<rparr> = Some []
   \<and> handleSubmit example_parseInt supabase (Some ''p1'')
        \<lparr> form_name = Some [], form_code = Some ''MA101'', form_semester = Some [],
          form_year = Some [] \<rparr>
        (example_server\<lparr> auth_uid := Some ''p1'' \<rparr>)
      = ([SetLoading True,
          ConsoleError ''Error creating course:''
            (ZodError [Issue ''name'' ''Course name is required'']),
          Toast Destructive ''Failed to create course''
            [Message (ZodError [Issue ''name'' ''Course name is required''])],
          SetLoading False],
         example_server\<lparr> auth_uid := Some ''p1'' \<rparr>)
   \<and> fst (handleSubmit example_parseInt supabase (Some ''p1'')
        \<lparr> form_name = Some ''Algebra'', form_code = Some ''MA101'', form_semester = Some [],
          form_year = Some [] \<rparr>
        (example_server\<lparr> auth_uid := Some ''p1'' \<rparr>))
      = [SetLoading True,
         Net (Insert ''courses''
                [(''name'', Some (Str ''Algebra'')), (''code'', Some (Str ''MA101'')),
                 (''professor_id'', Some (Str ''p1'')), (''semester'', Some Null),
                 (''year'', Some Null)]),
         Toast Default ''Course created!''
           [Interp (Some (Str ''Algebra'')), Lit '' has been successfully created.''],
         Navigate ''/professor'', SetLoading False]"
proof -
  let ?srv = "example_server\<lparr> auth_uid := Some ''p1'' \<rparr>"
  let ?bad = "\<lparr> form_name = Some [], form_code = Some ''MA101'', form_semester = Some [],
               form_year = Some [] \<rparr>"
  let ?good = "\<lparr> form_name = Some ''Algebra'', form_code = Some ''MA101'',
                form_semester = Some [], form_year = Some [] \<rparr>"
  have empty: "form_name ?bad = Some []" by simp
  have effs: "fst (handleSubmit example_parseInt supabase (Some ''p1'') ?bad ?srv)
      = [SetLoading True,
          ConsoleError ''Error creating course:''
            (ZodError [Issue ''name'' ''Course name is required'']),
          Toast Destructive ''Failed to create course''
            [Message (ZodError [Issue ''name'' ''Course name is required''])],
          SetLoading False]"
    by (simp add: form_defs Let_def)
  from course_form_validation [of ?bad example_parseInt "Some ''p1''" ?srv] empty
  have "snd (handleSubmit example_parseInt supabase (Some ''p1'') ?bad ?srv) = ?srv"
    by (metis snd_conv)
  with effs have bad: "handleSubmit example_parseInt supabase (Some ''p1'') ?bad ?srv
      = ([SetLoading True,
          ConsoleError ''Error creating course:''
            (ZodError [Issue ''name'' ''Course name is required'']),
          Toast Destructive ''Failed to create course''
            [Message (ZodError [Issue ''name'' ''Course name is required''])],
          SetLoading False], ?srv)"
    by (metis prod.collapse)
  have good: "fst (handleSubmit example_parseInt supabase (Some ''p1'') ?good ?srv)
      = [SetLoading True,
         Net (Insert ''courses''
                [(''name'', Some (Str ''Algebra'')), (''code'', Some (Str ''MA101'')),
                 (''professor_id'', Some (Str ''p1'')), (''semester'', Some Null),
                 (''year'', Some Null)]),
         Toast Default ''Course created!''
           [Interp (Some (Str ''Algebra'')), Lit '' has been successfully created.''],
         Navigate ''/professor'', SetLoading False]"
    by (simp add: form_defs backend_defs example_defs Let_def decimal.simps)
  from empty bad good show ?thesis by (intro conjI)
qed

end
